theory Spec2Isabelle
  imports Main "HOL-Library.Char_ord" "HOL-Library.List_Lexorder" "HOL-Library.Multiset"
    "HOL-Library.Sublist"
begin

section \<open>The JavaScript runtime, as far as the two source files use it\<close>

text \<open>
  The values a parsed JSON request body is made of, and \<open>undefined\<close> for what is absent.
  A number is kept as the text that converting it to a string gives.
\<close>

datatype js_value =
  JUndefined
| JNull
| JBool bool
| JNumber string
| JString string
| JArray "js_value list"
| JObject "(string \<times> js_value) list"

text \<open>
  What a template literal \<^verbatim>\<open>`${v}`\<close> inserts for a value, or \<open>None\<close> when the conversion
  throws a \<open>TypeError\<close>. An array joins the conversions of its elements with commas,
  \<open>null\<close> and \<open>undefined\<close> elements giving the empty string. An object is converted by
  its \<open>toString\<close>: the inherited one gives \<open>[object Object]\<close>; an own property
  \<open>toString\<close>, which in parsed JSON is never a function, hides it, and then neither
  \<open>toString\<close> nor \<open>valueOf\<close> gives a primitive value and the conversion throws.
\<close>

fun template_string :: "js_value \<Rightarrow> string option"
  and join :: "js_value list \<Rightarrow> string option" where
  "template_string JUndefined = Some ''undefined''"
| "template_string JNull = Some ''null''"
| "template_string (JBool b) = Some (if b then ''true'' else ''false'')"
| "template_string (JNumber s) = Some s"
| "template_string (JString s) = Some s"
| "template_string (JArray xs) = join xs"
| "template_string (JObject kvs) =
     (if ''toString'' \<in> fst ` set kvs then None else Some ''[object Object]'')"
| "join [] = Some []"
| "join (x # xs) =
     (case (if x = JUndefined \<or> x = JNull then Some [] else template_string x) of
        None \<Rightarrow> None
      | Some s \<Rightarrow>
          (if xs = [] then Some s
           else case join xs of None \<Rightarrow> None | Some t \<Rightarrow> Some (s @ '','' @ t)))"

text \<open>
  Reading the property \<open>username\<close> of a value, as the destructuring
  \<^verbatim>\<open>const { username } = req.body\<close> does: \<open>null\<close> and \<open>undefined\<close> have no properties and
  the read throws; an object gives its property (the last one, when the JSON text had the
  key twice) or \<open>undefined\<close>; any other value has no such property.
\<close>

datatype js_error = TypeError

definition read_username :: "js_value \<Rightarrow> js_error + js_value" where
  "read_username b =
     (case b of
        JUndefined \<Rightarrow> Inl TypeError
      | JNull \<Rightarrow> Inl TypeError
      | JObject kvs \<Rightarrow>
          Inr (case map_of (rev kvs) ''username'' of None \<Rightarrow> JUndefined | Some v \<Rightarrow> v)
      | _ \<Rightarrow> Inr JUndefined)"

text \<open>
  Truthiness of a nullable string, as in \<^verbatim>\<open>if (repo.language)\<close> and \<^verbatim>\<open>a || b\<close>:
  \<open>null\<close> and the empty string are falsy.
\<close>

fun truthy :: "string option \<Rightarrow> bool" where
  "truthy None = False"
| "truthy (Some s) = (s \<noteq> [])"

text \<open>
  \<^verbatim>\<open>Array.prototype.sort(cmp)\<close>. ECMAScript (2019 and later) requires the sort to be
  stable; it is modelled as the insertion sort that puts an element before the first
  element it does not compare greater than.
\<close>

fun sort_insert :: "('a \<Rightarrow> 'a \<Rightarrow> int) \<Rightarrow> 'a \<Rightarrow> 'a list \<Rightarrow> 'a list" where
  "sort_insert cmp x [] = [x]"
| "sort_insert cmp x (y # ys) =
     (if cmp x y \<le> 0 then x # y # ys else y # sort_insert cmp x ys)"

definition js_sort :: "('a \<Rightarrow> 'a \<Rightarrow> int) \<Rightarrow> 'a list \<Rightarrow> 'a list" where
  "js_sort cmp xs = foldr (sort_insert cmp) xs []"

text \<open>
  A comparator the sort can rely on (ECMAScript calls it a consistent comparison
  function): the sign of \<open>c a b\<close> is the opposite of the sign of \<open>c b a\<close>, and "not
  greater" is transitive. \<^verbatim>\<open>String.prototype.localeCompare\<close> is required to be one.
\<close>

definition consistent_comparator :: "('a \<Rightarrow> 'a \<Rightarrow> int) \<Rightarrow> bool" where
  "consistent_comparator c \<longleftrightarrow>
     (\<forall>a b. c a b < 0 \<longleftrightarrow> 0 < c b a) \<and>
     (\<forall>a b d. c a b \<le> 0 \<and> c b d \<le> 0 \<longrightarrow> c a d \<le> 0)"

text \<open>
  \<^verbatim>\<open>Array.prototype.slice(start, end)\<close> and \<^verbatim>\<open>slice(start)\<close>: a negative index counts
  from the end, and both indices are clamped to the array.
\<close>

definition relative_index :: "int \<Rightarrow> 'a list \<Rightarrow> nat" where
  "relative_index i xs =
     (let len = int (length xs)
      in nat (if i < 0 then max (len + i) 0 else min i len))"

definition slice :: "int \<Rightarrow> int \<Rightarrow> 'a list \<Rightarrow> 'a list" where
  "slice start fin xs =
     (let k = relative_index start xs; final = relative_index fin xs
      in take (final - k) (drop k xs))"

definition slice_from :: "int \<Rightarrow> 'a list \<Rightarrow> 'a list" where
  "slice_from start xs = drop (relative_index start xs) xs"

section \<open>The upstream source (GitHub REST API)\<close>

record user_data =
  login :: string
  name :: "string option"
  avatar_url :: string
  bio :: "string option"
  public_repos :: int
  followers :: int
  following :: int
  created_at :: string

record repo =
  name :: string
  html_url :: string
  description :: "string option"
  fork :: bool
  language :: "string option"
  stargazers_count :: int
  forks_count :: int
  updated_at :: string

text \<open>
  One entry of the weekly commit series as the handler keeps it (\<open>week\<close>, \<open>total\<close>), and
  as the upstream sends it (with the per-day counts). A missing \<open>total\<close> is \<open>None\<close>.
\<close>

record commit_week =
  week :: int
  total :: "int option"

record week_data = commit_week +
  days :: "int list"

text \<open>
  The outcome of one \<^verbatim>\<open>await axios.get(url, { headers })\<close>: the promise is rejected
  (network failure, or a status outside 2xx), or it resolves with the reply's data.
\<close>

datatype 'a reply = Rejected | Resolved 'a

text \<open>
  The data of a commit-activity reply: the array of weeks, or, while the statistics are
  still being computed upstream (status 202), a body that is not an array.
\<close>

datatype activity_data = NotComputed | WeekArray "week_data list"

text \<open>
  The data of a resolved profile reply: \<open>null\<close>, of which no field can be read, or the
  profile object. The data of a resolved repository-list reply: the array of
  repositories, or a value that is no array and has no \<^verbatim>\<open>filter\<close> (the profile object,
  for one: \<^verbatim>\<open>reposRes.data.filter\<close> is then no function and the call throws).
\<close>

datatype user_body = NullData | UserObject user_data

datatype repos_body = NotAnArray | RepoArray "repo list"

text \<open>
  The upstream as the handler sees it: what each of the three endpoints answers to a
  URL. The authorisation header is the same on every call and is part of the upstream.
\<close>

record upstream =
  get_user :: "string \<Rightarrow> user_body reply"
  get_repos :: "string \<Rightarrow> repos_body reply"
  get_commit_activity :: "string \<Rightarrow> activity_data reply"

definition user_url :: "string \<Rightarrow> string" where
  "user_url username = ''https://api.github.com/users/'' @ username"

definition repos_url :: "string \<Rightarrow> string" where
  "repos_url username =
     ''https://api.github.com/users/'' @ username @ ''/repos?per_page=100&sort=updated''"

definition commit_activity_url :: "string \<Rightarrow> string \<Rightarrow> string" where
  "commit_activity_url username repo_name =
     ''https://api.github.com/repos/'' @ username @ ''/'' @ repo_name @ ''/stats/commit_activity''"

section \<open>The aggregator: \<^verbatim>\<open>src/pages/api/fetch.js\<close>\<close>

record profile =
  login :: string
  name :: string
  avatar_url :: string
  bio :: "string option"
  public_repos :: int
  followers :: int
  following :: int
  created_at :: string

text \<open>
  A project of the result. The handler never sets \<open>topics\<close>; the presenter reads it, so
  the field is part of the record and absent (\<open>None\<close>) in what the handler builds.
\<close>

record project =
  name :: string
  html_url :: string
  description :: "string option"
  stars :: int
  forks :: int
  language :: "string option"
  last_updated :: string
  recentCommits :: int
  commitWeeks :: "commit_week list"
  topics :: "string list option"

text \<open>The request: \<open>req.method\<close> (\<open>method\<close> is a keyword of Isabelle) and \<open>req.body\<close>.\<close>

record request =
  http_method :: string
  body :: js_value

text \<open>
  A value of \<open>languageStats\<close>: a count, or the string that \<^verbatim>\<open>+ 1\<close> makes of a value
  that is no number.
\<close>

datatype stat = Count nat | Text string

datatype response_body =
  EndEmpty
| ErrorJson string
| SummaryJson profile "(string \<times> stat) list" "project list"

text \<open>
  What one run of the handler does: the status and body it sends, the URLs it requested
  from the upstream, in order, and the number of errors written to the server log.
\<close>

record effects =
  status :: nat
  sent :: response_body
  requests :: "string list"
  logged :: nat

definition make_profile :: "user_data \<Rightarrow> profile" where
  "make_profile d =
     \<lparr>profile.login = user_data.login d,
      profile.name = (case user_data.name d of
                        None \<Rightarrow> user_data.login d
                      | Some n \<Rightarrow> if n \<noteq> [] then n else user_data.login d),
      profile.avatar_url = user_data.avatar_url d,
      profile.bio = user_data.bio d,
      profile.public_repos = user_data.public_repos d,
      profile.followers = user_data.followers d,
      profile.following = user_data.following d,
      profile.created_at = user_data.created_at d\<rparr>"

text \<open>
  \<open>languageStats\<close> starts as \<^verbatim>\<open>{}\<close>, an object with the prototype of all objects: a
  read of a key it does not own finds what \<open>Object.prototype\<close> has under that name. These
  are the functions below and the accessor \<open>__proto__\<close>. Converted to a string, a built-in
  function reads as Node prints it; \<open>constructor\<close> is the function \<open>Object\<close>.
\<close>

definition inherited_functions :: "string list" where
  "inherited_functions =
     [''constructor'', ''__defineGetter__'', ''__defineSetter__'', ''hasOwnProperty'',
      ''__lookupGetter__'', ''__lookupSetter__'', ''isPrototypeOf'',
      ''propertyIsEnumerable'', ''toString'', ''valueOf'', ''toLocaleString'']"

definition function_text :: "string \<Rightarrow> string" where
  "function_text l =
     ''function '' @ (if l = ''constructor'' then ''Object'' else l) @ ''() { [native code] }''"

text \<open>
  \<^verbatim>\<open>(languageStats[l] || 0) + 1\<close> for a key \<open>l\<close> other than \<open>__proto__\<close>, from the own
  value of the key if there is one: a count is incremented; a string, and an inherited
  function, are truthy and \<^verbatim>\<open>+ 1\<close> appends the character \<open>1\<close> to their text.
\<close>

definition next_value :: "string \<Rightarrow> stat option \<Rightarrow> stat" where
  "next_value l own =
     (case own of
        Some (Count n) \<Rightarrow> Count (n + 1)
      | Some (Text s) \<Rightarrow> Text (s @ ''1'')
      | None \<Rightarrow>
          if l \<in> set inherited_functions then Text (function_text l @ ''1'') else Count 1)"

text \<open>
  The assignment \<^verbatim>\<open>languageStats[k] = v\<close> for such a key: an own key keeps its place, a
  new key is added after the others. (Keys that are array indices are enumerated first;
  nothing below depends on the order.)
\<close>

fun put :: "string \<Rightarrow> stat \<Rightarrow> (string \<times> stat) list \<Rightarrow> (string \<times> stat) list" where
  "put k v [] = [(k, v)]"
| "put k v ((k', v') # kvs) = (if k' = k then (k, v) # kvs else (k', v') # put k v kvs)"

text \<open>
  \<^verbatim>\<open>languageStats[l] = (languageStats[l] || 0) + 1\<close>. For \<open>__proto__\<close> the read gives the
  prototype, \<^verbatim>\<open>+ 1\<close> makes a string of it, and the assignment runs the setter of the
  accessor, which ignores a value that is neither an object nor \<open>null\<close>: nothing changes.
\<close>

definition bump :: "string \<Rightarrow> (string \<times> stat) list \<Rightarrow> (string \<times> stat) list" where
  "bump l stats =
     (if l = ''__proto__'' then stats else put l (next_value l (map_of stats l)) stats)"

definition count_language :: "(string \<times> stat) list \<Rightarrow> repo \<Rightarrow> (string \<times> stat) list" where
  "count_language stats r =
     (case repo.language r of
        None \<Rightarrow> stats
      | Some l \<Rightarrow> if truthy (Some l) then bump l stats else stats)"

definition language_stats :: "repo list \<Rightarrow> (string \<times> stat) list" where
  "language_stats allRepos = foldl count_language [] allRepos"

text \<open>The number a value of \<open>languageStats\<close> counts, and the count kept under a key.\<close>

fun count_of :: "stat \<Rightarrow> nat" where
  "count_of (Count n) = n"
| "count_of (Text s) = 0"

definition count_at :: "(string \<times> stat) list \<Rightarrow> string \<Rightarrow> nat" where
  "count_at stats l = (case map_of stats l of None \<Rightarrow> 0 | Some v \<Rightarrow> count_of v)"

definition by_stars :: "repo \<Rightarrow> repo \<Rightarrow> int" where
  "by_stars a b = stargazers_count b - stargazers_count a"

definition non_forks :: "repo list \<Rightarrow> repo list" where
  "non_forks data = filter (\<lambda>r. \<not> fork r) data"

definition top_repos :: "repo list \<Rightarrow> repo list" where
  "top_repos allRepos = slice 0 3 (js_sort by_stars allRepos)"

text \<open>
  The inner \<^verbatim>\<open>try\<close>: a rejected request, and a reply whose data has no \<^verbatim>\<open>map\<close>,
  both leave \<open>commitWeeks\<close> empty.
\<close>

definition commit_weeks :: "activity_data reply \<Rightarrow> commit_week list" where
  "commit_weeks r =
     (case r of
        Resolved (WeekArray ws) \<Rightarrow> map (\<lambda>w. \<lparr>week = week w, total = total w\<rparr>) ws
      | Resolved NotComputed \<Rightarrow> []
      | Rejected \<Rightarrow> [])"

definition total_or_zero :: "commit_week \<Rightarrow> int" where
  "total_or_zero w = (case total w of None \<Rightarrow> 0 | Some t \<Rightarrow> t)"

definition recent_commits :: "commit_week list \<Rightarrow> int" where
  "recent_commits ws = foldl (\<lambda>sum w. sum + total_or_zero w) 0 (slice_from (- 4) ws)"

definition enrich :: "upstream \<Rightarrow> string \<Rightarrow> repo \<Rightarrow> project" where
  "enrich up username r =
     (let cws = commit_weeks
                  (get_commit_activity up (commit_activity_url username (repo.name r)))
      in \<lparr>project.name = repo.name r,
          project.html_url = repo.html_url r,
          project.description = repo.description r,
          stars = stargazers_count r,
          forks = forks_count r,
          project.language = repo.language r,
          last_updated = updated_at r,
          recentCommits = recent_commits cws,
          commitWeeks = cws,
          topics = None\<rparr>)"

definition failure :: "string list \<Rightarrow> effects" where
  "failure urls =
     \<lparr>status = 500, sent = ErrorJson ''Failed to fetch GitHub data.'',
      requests = urls, logged = 1\<rparr>"

text \<open>
  The handler. Reading \<open>username\<close> of the body is outside the \<^verbatim>\<open>try\<close>: when it throws,
  the handler throws. Everything after it is inside: the interpolation of the username
  into the first URL, a rejected request, the read of a field of a profile that is
  \<open>null\<close>, and \<^verbatim>\<open>reposRes.data.filter\<close> on a value that has none, all end in the
  \<^verbatim>\<open>catch\<close>, which logs the error and answers 500.
\<close>

definition handler :: "upstream \<Rightarrow> request \<Rightarrow> js_error + effects" where
  "handler up req =
     (if http_method req \<noteq> ''POST''
      then Inr \<lparr>status = 405, sent = EndEmpty, requests = [], logged = 0\<rparr>
      else case read_username (body req) of
        Inl err \<Rightarrow> Inl err
      | Inr v \<Rightarrow>
          (case template_string v of
             None \<Rightarrow> Inr (failure [])
           | Some username \<Rightarrow>
               (case get_user up (user_url username) of
                  Rejected \<Rightarrow> Inr (failure [user_url username])
                | Resolved NullData \<Rightarrow> Inr (failure [user_url username])
                | Resolved (UserObject d) \<Rightarrow>
                    (case get_repos up (repos_url username) of
                       Rejected \<Rightarrow> Inr (failure [user_url username, repos_url username])
                     | Resolved NotAnArray \<Rightarrow>
                         Inr (failure [user_url username, repos_url username])
                     | Resolved (RepoArray data) \<Rightarrow>
                         (let allRepos = non_forks data;
                              languageStats = language_stats allRepos;
                              topRepos = top_repos allRepos;
                              projects = map (enrich up username) topRepos
                          in Inr \<lparr>status = 200,
                                  sent = SummaryJson (make_profile d) languageStats projects,
                                  requests = [user_url username, repos_url username]
                                    @ map (\<lambda>r. commit_activity_url username (repo.name r))
                                        topRepos,
                                  logged = 0\<rparr>)))))"

section \<open>The presenter: the page component and its project cards\<close>

subsection \<open>\<^verbatim>\<open>ProjectCard\<close>\<close>

definition compatibleLanguages :: "string list" where
  "compatibleLanguages =
     [''JavaScript'', ''TypeScript'', ''React'', ''Vue'', ''Angular'', ''HTML'']"

definition compatibleTopics :: "string list" where
  "compatibleTopics = [''react'', ''javascript'', ''typescript'', ''vue'', ''frontend'']"

text \<open>
  \<^verbatim>\<open>String.prototype.toLowerCase\<close> on the bytes of a string: the letters A to Z are
  lowered, every other byte is kept. JavaScript also lowers letters outside ASCII, but
  the result then is no ASCII word of \<open>compatibleTopics\<close> (none of them has a \<open>k\<close>, the
  only ASCII letter that is the lower case of a character outside ASCII), so membership in
  \<open>compatibleTopics\<close> is decided the same way.
\<close>

definition lower_char :: "char \<Rightarrow> char" where
  "lower_char c =
     (case map_of (zip ''ABCDEFGHIJKLMNOPQRSTUVWXYZ'' ''abcdefghijklmnopqrstuvwxyz'') c of
        None \<Rightarrow> c
      | Some l \<Rightarrow> l)"

definition toLowerCase :: "string \<Rightarrow> string" where
  "toLowerCase s = map lower_char s"

definition isSandboxCompatible :: "project \<Rightarrow> bool" where
  "isSandboxCompatible proj =
     ((case project.language proj of
         None \<Rightarrow> False
       | Some l \<Rightarrow> l \<in> set compatibleLanguages)
      \<or> (case topics proj of
            None \<Rightarrow> False
          | Some ts \<Rightarrow> list_ex (\<lambda>topic. toLowerCase topic \<in> set compatibleTopics) ts))"

text \<open>The two pieces of state of one card (\<^verbatim>\<open>useState(false)\<close> twice).\<close>

record card =
  showSandbox :: bool
  isMaximized :: bool

definition new_card :: card where
  "new_card = \<lparr>showSandbox = False, isMaximized = False\<rparr>"

definition toggleMaximize :: "card \<Rightarrow> card" where
  "toggleMaximize c = c\<lparr>isMaximized := \<not> isMaximized c\<rparr>"

definition toggleSandbox :: "card \<Rightarrow> card" where
  "toggleSandbox c = c\<lparr>showSandbox := \<not> showSandbox c\<rparr>"

definition sandboxUrl :: "string \<Rightarrow> project \<Rightarrow> string" where
  "sandboxUrl user proj =
     ''https://codesandbox.io/embed/github/'' @ user @ ''/'' @ project.name proj
       @ ''?autoresize=1&fontsize=14&hidenavigation=1&theme=dark''"

definition ogImage :: "string \<Rightarrow> project \<Rightarrow> string" where
  "ogImage user proj =
     ''https://opengraph.githubassets.com/1/'' @ user @ ''/'' @ project.name proj"

datatype preview = Iframe string | Image string

text \<open>
  What a card renders, as far as its controls go: whether the card carries the class
  \<open>maximized\<close>, the preview, and for each of the three buttons whether it is there (the
  toggle with its label, the maximize button with its \<open>aria-label\<close>).
\<close>

record card_view =
  maximized :: bool
  shown :: preview
  close_maximize_button :: bool
  toggle_button :: "string option"
  maximize_button :: "string option"

definition ProjectCard :: "project \<Rightarrow> string \<Rightarrow> card \<Rightarrow> card_view" where
  "ProjectCard proj user c =
     \<lparr>maximized = isMaximized c,
      shown = (if showSandbox c then Iframe (sandboxUrl user proj) else Image (ogImage user proj)),
      close_maximize_button = (showSandbox c \<and> isMaximized c),
      toggle_button =
        (if isSandboxCompatible proj
         then Some (if showSandbox c then ''Hide Sandbox'' else ''Try in Sandbox'')
         else None),
      maximize_button =
        (if isSandboxCompatible proj \<and> showSandbox c
         then Some (if isMaximized c then ''Minimize sandbox'' else ''Maximize sandbox'')
         else None)\<rparr>"

text \<open>A click on one of the card's buttons; a button that is not rendered cannot be clicked.\<close>

datatype card_event = ClickToggle | ClickMaximize | ClickCloseMaximize

definition card_click :: "project \<Rightarrow> string \<Rightarrow> card \<Rightarrow> card_event \<Rightarrow> card" where
  "card_click proj user c ev =
     (let v = ProjectCard proj user c
      in case ev of
           ClickToggle \<Rightarrow> if toggle_button v \<noteq> None then toggleSandbox c else c
         | ClickMaximize \<Rightarrow> if maximize_button v \<noteq> None then toggleMaximize c else c
         | ClickCloseMaximize \<Rightarrow> if close_maximize_button v then toggleMaximize c else c)"

text \<open>
  The preview eligibility of a project in the words of the specification: the language
  is on the list of languages, or a topic equals, ignoring case, a keyword of the list
  of topics. Equality ignoring case is said on the codes of the characters, without the
  function the code lowers a topic with: two strings are equal ignoring case when they
  have the same length and hold, position by position, the same character or the capital
  (codes 65 to 90) and the small form (32 more) of one letter.
\<close>

definition is_capital :: "char \<Rightarrow> bool" where
  "is_capital c \<longleftrightarrow> 65 \<le> (of_char c :: nat) \<and> (of_char c :: nat) \<le> 90"

definition same_letter :: "char \<Rightarrow> char \<Rightarrow> bool" where
  "same_letter c d \<longleftrightarrow>
     c = d \<or> (is_capital c \<and> (of_char d :: nat) = of_char c + 32)
           \<or> (is_capital d \<and> (of_char c :: nat) = of_char d + 32)"

definition equal_ignoring_case :: "string \<Rightarrow> string \<Rightarrow> bool" where
  "equal_ignoring_case a b \<longleftrightarrow> list_all2 same_letter a b"

definition preview_eligible :: "project \<Rightarrow> bool" where
  "preview_eligible proj \<longleftrightarrow>
     (\<exists>l. project.language proj = Some l \<and> l \<in> set compatibleLanguages) \<or>
     (\<exists>ts t k. topics proj = Some ts \<and> t \<in> set ts \<and> k \<in> set compatibleTopics \<and>
        equal_ignoring_case t k)"

subsection \<open>\<^verbatim>\<open>Home\<close>\<close>

text \<open>
  Arrays are objects with identity: the store holds the arrays of projects, a reference
  is an index into it, and a new array is put at the end. A reference the program holds
  is always the address of an array (JavaScript has no dangling reference); the theorems
  about the store say so as a hypothesis.
\<close>

type_synonym ref = nat

type_synonym store = "project list list"

definition alloc :: "project list \<Rightarrow> store \<Rightarrow> ref \<times> store" where
  "alloc xs h = (length h, h @ [xs])"

text \<open>\<^verbatim>\<open>[...a]\<close> and \<^verbatim>\<open>a.filter(p)\<close> make a new array; \<^verbatim>\<open>a.sort(cmp)\<close> sorts \<open>a\<close>
  itself.\<close>

definition spread :: "ref \<Rightarrow> store \<Rightarrow> ref \<times> store" where
  "spread a h = alloc (h ! a) h"

definition array_filter :: "(project \<Rightarrow> bool) \<Rightarrow> ref \<Rightarrow> store \<Rightarrow> ref \<times> store" where
  "array_filter p a h = alloc (filter p (h ! a)) h"

definition array_sort :: "(project \<Rightarrow> project \<Rightarrow> int) \<Rightarrow> ref \<Rightarrow> store \<Rightarrow> store" where
  "array_sort cmp a h = h[a := js_sort cmp (h ! a)]"

text \<open>The parsed reply kept in \<open>data\<close>; its \<open>projects\<close> array lives in the store.\<close>

record fetched =
  profile :: profile
  languageStats :: "(string \<times> stat) list"
  projects :: "ref option"

record home =
  username :: string
  data :: "fetched option"
  loading :: bool
  error :: "string option"
  sortBy :: string
  filterLanguage :: string
  maximizedProject :: "string option"

text \<open>The comparator of \<^verbatim>\<open>getFilteredProjects\<close>; \<open>localeCompare\<close> is the runtime's.\<close>

definition sort_comparator ::
  "(string \<Rightarrow> string \<Rightarrow> int) \<Rightarrow> string \<Rightarrow> project \<Rightarrow> project \<Rightarrow> int" where
  "sort_comparator localeCompare key a b =
     (if key = ''stars'' then stars b - stars a
      else if key = ''recent'' then recentCommits b - recentCommits a
      else if key = ''name'' then localeCompare (project.name a) (project.name b)
      else 0)"

definition getFilteredProjects ::
  "(string \<Rightarrow> string \<Rightarrow> int) \<Rightarrow> home \<Rightarrow> store \<Rightarrow> ref \<times> store" where
  "getFilteredProjects localeCompare st h =
     (case data st of
        None \<Rightarrow> alloc [] h
      | Some d \<Rightarrow>
          (case projects d of
             None \<Rightarrow> alloc [] h
           | Some a \<Rightarrow>
               (let (filtered, h1) = spread a h;
                    (filtered, h2) =
                      (if filterLanguage st \<noteq> []
                       then array_filter
                              (\<lambda>proj. project.language proj = Some (filterLanguage st))
                              filtered h1
                       else (filtered, h1))
                in (filtered, array_sort (sort_comparator localeCompare (sortBy st)) filtered h2))))"

text \<open>
  The list \<open>Home\<close> renders a card for: \<^verbatim>\<open>getFilteredProjects().map(proj => ...)\<close>.
\<close>

definition displayed_projects ::
  "(string \<Rightarrow> string \<Rightarrow> int) \<Rightarrow> home \<Rightarrow> store \<Rightarrow> project list" where
  "displayed_projects localeCompare st h =
     (case getFilteredProjects localeCompare st h of (filtered, h') \<Rightarrow> h' ! filtered)"

text \<open>
  \<^verbatim>\<open>getAvailableLanguages\<close>: the truthy languages of \<open>data.projects\<close>, each once
  (\<^verbatim>\<open>[...new Set(languages)]\<close>).
\<close>

definition getAvailableLanguages :: "home \<Rightarrow> store \<Rightarrow> string list" where
  "getAvailableLanguages st h =
     (case data st of
        None \<Rightarrow> []
      | Some d \<Rightarrow>
          (case projects d of
             None \<Rightarrow> []
           | Some a \<Rightarrow>
               foldl (\<lambda>seen l. if l \<in> set seen then seen else seen @ [l]) []
                 (concat (map (\<lambda>proj. case project.language proj of
                                        None \<Rightarrow> []
                                      | Some l \<Rightarrow> if l \<noteq> [] then [l] else [])
                            (h ! a)))))"

text \<open>
  The page: the state of \<open>Home\<close>, the arrays it holds, and the state of the mounted
  cards. A card is mounted for each project of the displayed list, under the project's
  name (its \<open>key\<close>), and its state lasts as long as it stays mounted: a card that leaves
  the list is unmounted, and one that enters it starts in its initial state. So the
  state kept for a name that is not displayed is the initial state.
\<close>

record page =
  home_state :: home
  arrays :: store
  cards :: "string \<Rightarrow> card"

definition card_list :: "(string \<Rightarrow> string \<Rightarrow> int) \<Rightarrow> page \<Rightarrow> project list" where
  "card_list localeCompare pg = displayed_projects localeCompare (home_state pg) (arrays pg)"

definition render :: "(string \<Rightarrow> string \<Rightarrow> int) \<Rightarrow> page \<Rightarrow> page" where
  "render localeCompare pg =
     pg\<lparr>cards := (\<lambda>key. if key \<in> set (map project.name (card_list localeCompare pg))
                          then cards pg key else new_card)\<rparr>"

text \<open>
  A click reaches the card of a displayed project; no handler of a card calls a setter
  of \<open>Home\<close>.
\<close>

definition click :: "project list \<Rightarrow> page \<Rightarrow> string \<times> card_event \<Rightarrow> page" where
  "click displayed pg target =
     (case find (\<lambda>proj. project.name proj = fst target) displayed of
        None \<Rightarrow> pg
      | Some proj \<Rightarrow>
          (case data (home_state pg) of
             None \<Rightarrow> pg
           | Some d \<Rightarrow>
               pg\<lparr>cards := (cards pg)
                    (fst target :=
                       card_click proj (profile.login (profile d)) (cards pg (fst target))
                         (snd target))\<rparr>))"

text \<open>
  What the request of \<^verbatim>\<open>fetchProfile\<close> comes to: a reply with \<open>res.ok\<close> and its parsed
  summary (whose \<open>projects\<close> may be missing), a reply without \<open>res.ok\<close> and its \<open>error\<close>
  field, or a failure of the request or of the parsing.
\<close>

datatype fetch_outcome =
  Summary profile "(string \<times> stat) list" "project list option"
| Refusal "string option"
| NetworkError

text \<open>
  \<^verbatim>\<open>fetchProfile\<close>, from the click to the last \<^verbatim>\<open>setLoading(false)\<close>; \<open>trim\<close> is the
  runtime's \<^verbatim>\<open>String.prototype.trim\<close>. A blank username only sets the error. Otherwise
  \<open>data\<close> is set to \<open>null\<close> first, which unmounts every card. With a summary, \<open>data\<close> is
  set to it, and the language filter is cleared when there are projects; reading the
  length of missing \<open>projects\<close> throws after \<open>data\<close> was set, and the \<^verbatim>\<open>catch\<close> sets the
  error.
\<close>

definition fetchProfile :: "(string \<Rightarrow> string) \<Rightarrow> fetch_outcome \<Rightarrow> page \<Rightarrow> page" where
  "fetchProfile trim outcome pg =
     (let st = home_state pg
      in if trim (username st) = []
         then pg\<lparr>home_state := st\<lparr>error := Some ''Please enter a GitHub username''\<rparr>\<rparr>
         else
           (case outcome of
              Summary prof stats (Some ps) \<Rightarrow>
                (let (a, h) = alloc ps (arrays pg)
                 in \<lparr>home_state =
                        st\<lparr>loading := False, error := None,
                           data := Some \<lparr>profile = prof, languageStats = stats,
                                          projects = Some a\<rparr>,
                           filterLanguage := (if ps \<noteq> [] then [] else filterLanguage st)\<rparr>,
                      arrays = h, cards = (\<lambda>key. new_card)\<rparr>)
            | Summary prof stats None \<Rightarrow>
                \<lparr>home_state =
                   st\<lparr>loading := False, error := Some ''Network error. Please try again.'',
                      data := Some \<lparr>profile = prof, languageStats = stats, projects = None\<rparr>\<rparr>,
                 arrays = arrays pg, cards = (\<lambda>key. new_card)\<rparr>
            | Refusal message \<Rightarrow>
                \<lparr>home_state =
                   st\<lparr>loading := False,
                      error := Some (case message of
                                       None \<Rightarrow> ''Error fetching data''
                                     | Some m \<Rightarrow> if m \<noteq> [] then m
                                                else ''Error fetching data''),
                      data := None\<rparr>,
                 arrays = arrays pg, cards = (\<lambda>key. new_card)\<rparr>
            | NetworkError \<Rightarrow>
                \<lparr>home_state =
                   st\<lparr>loading := False, error := Some ''Network error. Please try again.'',
                      data := None\<rparr>,
                 arrays = arrays pg, cards = (\<lambda>key. new_card)\<rparr>))"

text \<open>
  The events of the page. The two selects are rendered only when there is \<open>data\<close>, and
  offer the three sort keys, and the empty filter and the available languages. A change
  of the sort key or of the filter renders the list again.
\<close>

datatype event =
  Click string card_event
| ChangeUsername string
| ChangeSort string
| ChangeFilter string
| Fetch fetch_outcome

definition step ::
  "(string \<Rightarrow> string \<Rightarrow> int) \<Rightarrow> (string \<Rightarrow> string) \<Rightarrow> page \<Rightarrow> event \<Rightarrow> page" where
  "step localeCompare trim pg ev =
     (case ev of
        Click key button \<Rightarrow> click (card_list localeCompare pg) pg (key, button)
      | ChangeUsername u \<Rightarrow> pg\<lparr>home_state := (home_state pg)\<lparr>username := u\<rparr>\<rparr>
      | ChangeSort key \<Rightarrow>
          (if data (home_state pg) \<noteq> None \<and> key \<in> set [''stars'', ''recent'', ''name'']
           then render localeCompare (pg\<lparr>home_state := (home_state pg)\<lparr>sortBy := key\<rparr>\<rparr>)
           else pg)
      | ChangeFilter l \<Rightarrow>
          (if data (home_state pg) \<noteq> None
              \<and> l \<in> set ([] # getAvailableLanguages (home_state pg) (arrays pg))
           then render localeCompare
                  (pg\<lparr>home_state := (home_state pg)\<lparr>filterLanguage := l\<rparr>\<rparr>)
           else pg)
      | Fetch outcome \<Rightarrow> fetchProfile trim outcome pg)"

text \<open>The page before the first fetch.\<close>

definition initial_page :: page where
  "initial_page =
     \<lparr>home_state =
        \<lparr>username = [], data = None, loading = False, error = None, sortBy = ''stars'',
         filterLanguage = [], maximizedProject = None\<rparr>,
      arrays = [], cards = (\<lambda>key. new_card)\<rparr>"

text \<open>The projects whose card carries the class \<open>maximized\<close>.\<close>

definition expanded :: "(string \<Rightarrow> string \<Rightarrow> int) \<Rightarrow> page \<Rightarrow> string list" where
  "expanded localeCompare pg =
     map project.name
       (filter (\<lambda>proj. isMaximized (cards pg (project.name proj)))
          (card_list localeCompare pg))"

section \<open>Test data\<close>

text \<open>
  An account with six repositories, one of them a fork, and an upstream that knows only
  this account: the commit statistics of one repository are not computed yet, and those
  of the repositories it does not list are refused.
\<close>

definition example_repo :: "string \<Rightarrow> string option \<Rightarrow> int \<Rightarrow> bool \<Rightarrow> repo" where
  "example_repo n l s f =
     \<lparr>repo.name = n, repo.html_url = ''https://github.com/octocat/'' @ n,
      repo.description = None, fork = f, repo.language = l, stargazers_count = s,
      forks_count = 0, updated_at = ''2024-05-01''\<rparr>"

definition octocat_repos :: "repo list" where
  "octocat_repos =
     [example_repo ''hello'' (Some ''TypeScript'') 10 False,
      example_repo ''spoon'' (Some ''Python'') 50 False,
      example_repo ''linguist'' (Some ''Ruby'') 99 True,
      example_repo ''notes'' None 10 False,
      example_repo ''site'' (Some ''HTML'') 3 False,
      example_repo ''api'' (Some ''Python'') 0 False]"

definition octocat_user :: user_data where
  "octocat_user =
     \<lparr>user_data.login = ''octocat'', user_data.name = None,
      user_data.avatar_url = ''https://github.com/images/octocat.png'',
      user_data.bio = None, user_data.public_repos = 6, user_data.followers = 20,
      user_data.following = 0, user_data.created_at = ''2011-01-25''\<rparr>"

definition example_weeks :: "int list \<Rightarrow> week_data list" where
  "example_weeks ts = map (\<lambda>t. \<lparr>week = 1700000000, total = Some t, days = []\<rparr>) ts"

definition octocat_upstream :: upstream where
  "octocat_upstream =
     \<lparr>get_user = (\<lambda>url. if url = user_url ''octocat''
                        then Resolved (UserObject octocat_user) else Rejected),
      get_repos = (\<lambda>url. if url = repos_url ''octocat''
                         then Resolved (RepoArray octocat_repos) else Rejected),
      get_commit_activity =
        (\<lambda>url. if url = commit_activity_url ''octocat'' ''spoon''
                then Resolved (WeekArray (example_weeks [5, 1, 2, 3, 4, 0]))
              else if url = commit_activity_url ''octocat'' ''hello''
                then Resolved NotComputed
              else if url = commit_activity_url ''octocat'' ''notes''
                then Resolved (WeekArray (example_weeks [7, 1]))
              else Rejected)\<rparr>"

definition post :: "js_value \<Rightarrow> request" where
  "post b = \<lparr>http_method = ''POST'', body = b\<rparr>"

definition named :: "string \<Rightarrow> js_value" where
  "named u = JObject [(''username'', JString u)]"

definition example_project ::
  "string \<Rightarrow> string option \<Rightarrow> int \<Rightarrow> int list \<Rightarrow> int \<Rightarrow> project" where
  "example_project n l s ts rc =
     \<lparr>project.name = n, project.html_url = ''https://github.com/octocat/'' @ n,
      project.description = None, stars = s, forks = 0, project.language = l,
      last_updated = ''2024-05-01'', recentCommits = rc,
      commitWeeks = map (\<lambda>t. \<lparr>week = 1700000000, total = Some t\<rparr>) ts, topics = None\<rparr>"

definition octocat_projects :: "project list" where
  "octocat_projects =
     [example_project ''spoon'' (Some ''Python'') 50 [5, 1, 2, 3, 4, 0] 9,
      example_project ''hello'' (Some ''TypeScript'') 10 [] 0,
      example_project ''notes'' None 10 [7, 1] 8]"

definition octocat_effects :: effects where
  "octocat_effects =
     \<lparr>status = 200,
      sent = SummaryJson (make_profile octocat_user)
               [(''TypeScript'', Count 1), (''Python'', Count 2), (''HTML'', Count 1)] octocat_projects,
      requests =
        [''https://api.github.com/users/octocat'',
         ''https://api.github.com/users/octocat/repos?per_page=100&sort=updated'',
         ''https://api.github.com/repos/octocat/spoon/stats/commit_activity'',
         ''https://api.github.com/repos/octocat/hello/stats/commit_activity'',
         ''https://api.github.com/repos/octocat/notes/stats/commit_activity''],
      logged = 0\<rparr>"

text \<open>
  Test data for the presenter: a comparison of strings by their code units, standing for
  \<open>localeCompare\<close>, and the removal of spaces at both ends, standing for \<open>trim\<close>; a
  project that is eligible by a topic only; the state of \<open>Home\<close> after the reply for the
  test account arrived, its \<open>projects\<close> array at address 0 of the store; and a session of
  the page from its initial state: the username is typed, a reply with two projects a
  sandbox can run arrives, and the sandbox of each is opened and maximized.
\<close>

definition code_unit_compare :: "string \<Rightarrow> string \<Rightarrow> int" where
  "code_unit_compare a b = (if a < b then - 1 else if b < a then 1 else 0)"

definition web_projects :: "project list" where
  "web_projects =
     [example_project ''site'' (Some ''HTML'') 3 [] 0,
      example_project ''hello'' (Some ''TypeScript'') 10 [] 0]"

definition tagged_project :: project where
  "tagged_project = (example_project ''api'' (Some ''Python'') 0 [] 0)\<lparr>topics := Some [''REST'', ''FrontEnd'']\<rparr>"

definition octocat_data :: fetched where
  "octocat_data =
     \<lparr>profile = make_profile octocat_user,
      languageStats = [(''TypeScript'', Count 1), (''Python'', Count 2), (''HTML'', Count 1)],
      projects = Some 0\<rparr>"

definition octocat_home :: home where
  "octocat_home =
     \<lparr>username = ''octocat'', data = Some octocat_data, loading = False, error = None,
      sortBy = ''name'', filterLanguage = [], maximizedProject = None\<rparr>"

definition octocat_by_name :: "project list" where
  "octocat_by_name =
     [example_project ''hello'' (Some ''TypeScript'') 10 [] 0,
      example_project ''notes'' None 10 [7, 1] 8,
      example_project ''spoon'' (Some ''Python'') 50 [5, 1, 2, 3, 4, 0] 9]"

definition octocat_store :: store where
  "octocat_store = [octocat_projects]"

definition web_profile :: profile where
  "web_profile = make_profile octocat_user"

definition trim_spaces :: "string \<Rightarrow> string" where
  "trim_spaces s = rev (dropWhile (\<lambda>c. c = CHR '' '') (rev (dropWhile (\<lambda>c. c = CHR '' '') s)))"

definition web_session :: "event list" where
  "web_session =
     [ChangeUsername ''octocat'',
      Fetch (Summary web_profile [(''HTML'', Count 1), (''TypeScript'', Count 1)]
               (Some web_projects)),
      Click ''site'' ClickToggle, Click ''hello'' ClickToggle,
      Click ''site'' ClickMaximize, Click ''hello'' ClickMaximize]"

definition web_page :: page where
  "web_page = foldl (step code_unit_compare trim_spaces) initial_page web_session"

text \<open>The page of the session when the reply has arrived, before the first click.\<close>

definition fetched_page :: page where
  "fetched_page =
     \<lparr>home_state =
        \<lparr>username = ''octocat'',
         data = Some \<lparr>profile = web_profile,
                      languageStats = [(''HTML'', Count 1), (''TypeScript'', Count 1)],
                      projects = Some 0\<rparr>,
         loading = False, error = None, sortBy = ''stars'', filterLanguage = [],
         maximizedProject = None\<rparr>,
      arrays = [web_projects], cards = (\<lambda>key. new_card)\<rparr>"

text \<open>
  Test data for the language statistics: an account with a repository whose language is
  the empty string and one whose language is named \<open>constructor\<close>.
\<close>

definition odd_repos :: "repo list" where
  "odd_repos =
     [example_repo ''blank'' (Some []) 2 False,
      example_repo ''ctor'' (Some ''constructor'') 1 False]"

definition odd_upstream :: upstream where
  "odd_upstream =
     \<lparr>get_user = (\<lambda>url. Resolved (UserObject octocat_user)),
      get_repos = (\<lambda>url. Resolved (RepoArray odd_repos)),
      get_commit_activity = (\<lambda>url. Rejected)\<rparr>"

definition odd_effects :: effects where
  "odd_effects =
     \<lparr>status = 200,
      sent = SummaryJson (make_profile octocat_user)
               [(''constructor'', Text ''function Object() { [native code] }1'')]
               [example_project ''blank'' (Some []) 2 [] 0,
                example_project ''ctor'' (Some ''constructor'') 1 [] 0],
      requests =
        [''https://api.github.com/users/odd'',
         ''https://api.github.com/users/odd/repos?per_page=100&sort=updated'',
         ''https://api.github.com/repos/odd/blank/stats/commit_activity'',
         ''https://api.github.com/repos/odd/ctor/stats/commit_activity''],
      logged = 0\<rparr>"

text \<open>
  Test data for the handler: an upstream whose profile endpoint answers every username and
  whose repository-list endpoint answers with a value that is no array.
\<close>

definition profile_only_upstream :: upstream where
  "profile_only_upstream =
     \<lparr>get_user = (\<lambda>url. Resolved (UserObject octocat_user)),
      get_repos = (\<lambda>url. Resolved NotAnArray),
      get_commit_activity = (\<lambda>url. Rejected)\<rparr>"

text \<open>
  Test data for the eligibility: a Python project whose topics come near the keywords
  without being one of them in any case, and a project whose language is a language of
  the list in small letters.
\<close>

definition near_miss_project :: project where
  "near_miss_project =
     (example_project ''api'' (Some ''Python'') 0 [] 0)
       \<lparr>topics := Some [''reactive'', ''Java Script'', ''vu'', ''front-end'']\<rparr>"

definition small_letters_project :: project where
  "small_letters_project = example_project ''page'' (Some ''javascript'') 0 [] 0"

section \<open>Properties of the runtime functions\<close>

lemma foldl_add_sum_list:
  "foldl (\<lambda>sum w. sum + f w) a xs = a + sum_list (map f xs)"
  by (induction xs arbitrary: a) (simp_all add: add.assoc)

lemma slice_from_neg:
  "slice_from (- 4) xs = drop (length xs - 4) xs"
  by (simp add: slice_from_def relative_index_def Let_def max_def nat_diff_distrib')


lemma slice_0:
  "slice 0 3 xs = take 3 xs"
  by (simp add: slice_def relative_index_def Let_def min_def)

lemma recent_commits_sum:
  "recent_commits ws = sum_list (map total_or_zero (drop (length ws - 4) ws))"
  by (simp add: recent_commits_def foldl_add_sum_list slice_from_neg)

lemma sum_list_drop_nth:
  "sum_list (map f (drop k xs)) = (\<Sum>i = k..<length xs. f (xs ! i))"
proof -
  have "sum_list (map f (drop k xs)) = (\<Sum>i = 0..<length xs - k. f (drop k xs ! i))"
    by (simp add: sum_list_sum_nth)
  also have "\<dots> = (\<Sum>i = 0..<length xs - k. f (xs ! (k + i)))"
    by (rule sum.cong) simp_all
  also have "\<dots> = (\<Sum>i = k..<length xs. f (xs ! i))"
    using sum.shift_bounds_nat_ivl [of "\<lambda>i. f (xs ! i)" 0 k "length xs - k"]
    by (cases "k \<le> length xs") (simp_all add: add.commute)
  finally show ?thesis .
qed

lemma mset_sort_insert: "mset (sort_insert c x ys) = add_mset x (mset ys)"
  by (induction ys) simp_all

lemma mset_js_sort: "mset (js_sort c xs) = mset xs"
  by (induction xs) (simp_all add: js_sort_def mset_sort_insert)

lemma js_sort_Cons: "js_sort c (x # xs) = sort_insert c x (js_sort c xs)"
  by (simp add: js_sort_def)

lemma js_sort_Nil: "js_sort c [] = []"
  by (simp add: js_sort_def)

lemma length_js_sort: "length (js_sort c xs) = length xs"
  using mset_js_sort [of c xs] by (metis size_mset)

lemma set_js_sort: "set (js_sort c xs) = set xs"
  using mset_js_sort [of c xs] by (metis set_mset_mset)

lemma filter_sort_insert_out:
  "\<not> P x \<Longrightarrow> filter P (sort_insert c x ys) = filter P ys"
  by (induction ys) simp_all

lemma filter_sort_insert_in:
  "P x \<Longrightarrow> (\<And>b. P b \<Longrightarrow> c x b \<le> 0) \<Longrightarrow> filter P (sort_insert c x ys) = x # filter P ys"
  by (induction ys) auto

lemma js_sort_stable:
  assumes "\<And>a b. P a \<Longrightarrow> P b \<Longrightarrow> c a b \<le> 0"
  shows "filter P (js_sort c xs) = filter P xs"
proof (induction xs)
  case Nil
  show ?case by (simp add: js_sort_Nil)
next
  case (Cons x xs)
  show ?case
  proof (cases "P x")
    case True
    then show ?thesis
      using Cons assms by (simp add: js_sort_Cons filter_sort_insert_in)
  next
    case False
    then show ?thesis
      using Cons by (simp add: js_sort_Cons filter_sort_insert_out)
  qed
qed

lemma set_sort_insert: "set (sort_insert c x ys) = insert x (set ys)"
  by (induction ys) auto

lemma sorted_sort_insert:
  assumes "consistent_comparator c" "sorted_wrt (\<lambda>a b. c a b \<le> 0) ys"
  shows "sorted_wrt (\<lambda>a b. c a b \<le> 0) (sort_insert c x ys)"
  using assms(2)
proof (induction ys)
  case Nil
  show ?case by simp
next
  case (Cons y ys)
  have total: "\<And>a b. \<not> c a b \<le> 0 \<Longrightarrow> c b a \<le> 0"
    using assms(1) unfolding consistent_comparator_def by (metis less_le_not_le linorder_le_cases)
  have trans: "\<And>a b d. c a b \<le> 0 \<Longrightarrow> c b d \<le> 0 \<Longrightarrow> c a d \<le> 0"
    using assms(1) unfolding consistent_comparator_def by blast
  show ?case
  proof (cases "c x y \<le> 0")
    case True
    then show ?thesis using Cons.prems trans by auto
  next
    case False
    then show ?thesis using Cons total by (auto simp: set_sort_insert)
  qed
qed

lemma sorted_js_sort:
  "consistent_comparator c \<Longrightarrow> sorted_wrt (\<lambda>a b. c a b \<le> 0) (js_sort c xs)"
  by (induction xs) (simp_all add: js_sort_Nil js_sort_Cons sorted_sort_insert)

lemma js_sort_sorted_id:
  "sorted_wrt (\<lambda>a b. c a b \<le> 0) xs \<Longrightarrow> js_sort c xs = xs"
proof (induction xs)
  case Nil
  show ?case by (simp add: js_sort_Nil)
next
  case (Cons x xs)
  then have "js_sort c xs = xs" by simp
  then show ?case using Cons.prems by (cases xs) (simp_all add: js_sort_Cons)
qed

lemma js_sort_idem:
  "consistent_comparator c \<Longrightarrow> js_sort c (js_sort c xs) = js_sort c xs"
  by (simp add: js_sort_sorted_id sorted_js_sort)

section \<open>What the handler answers\<close>

lemma handler_resolved:
  assumes "http_method req = ''POST''" and "read_username (body req) = Inr v"
    and "template_string v = Some u"
    and "get_user up (user_url u) = Resolved (UserObject d)"
    and "get_repos up (repos_url u) = Resolved (RepoArray rs)"
  shows "handler up req =
     Inr \<lparr>status = 200,
          sent = SummaryJson (make_profile d) (language_stats (non_forks rs))
                   (map (enrich up u) (top_repos (non_forks rs))),
          requests = [user_url u, repos_url u]
            @ map (\<lambda>r. commit_activity_url u (repo.name r)) (top_repos (non_forks rs)),
          logged = 0\<rparr>"
  using assms by (simp add: handler_def Let_def)

lemma handler_summary:
  assumes "handler up req = Inr e" and "sent e = SummaryJson prof stats ps"
  obtains v u d rs where "http_method req = ''POST''" and "read_username (body req) = Inr v"
    and "template_string v = Some u"
    and "get_user up (user_url u) = Resolved (UserObject d)"
    and "get_repos up (repos_url u) = Resolved (RepoArray rs)"
    and "status e = 200"
    and "prof = make_profile d"
    and "stats = language_stats (non_forks rs)"
    and "ps = map (enrich up u) (top_repos (non_forks rs))"
  using assms
  by (auto simp: handler_def Let_def failure_def
      split: if_splits sum.splits option.splits reply.splits user_body.splits
        repos_body.splits)

lemma post_named:
  "http_method (post b) = ''POST''"
  "read_username (body (post (named u))) = Inr (JString u)"
  "read_username (body (post (JObject []))) = Inr JUndefined"
  by (simp_all add: post_def named_def read_username_def)

lemma top_repos_octocat:
  "top_repos (non_forks octocat_repos) =
     [example_repo ''spoon'' (Some ''Python'') 50 False,
      example_repo ''hello'' (Some ''TypeScript'') 10 False,
      example_repo ''notes'' None 10 False]"
  by (simp add: top_repos_def non_forks_def octocat_repos_def example_repo_def js_sort_def
      by_stars_def slice_def relative_index_def)

lemma language_stats_octocat:
  "language_stats (non_forks octocat_repos) =
     [(''TypeScript'', Count 1), (''Python'', Count 2), (''HTML'', Count 1)]"
  by (simp add: language_stats_def non_forks_def octocat_repos_def example_repo_def
      count_language_def bump_def next_value_def inherited_functions_def)

lemma enrich_octocat:
  "map (enrich octocat_upstream ''octocat'') (top_repos (non_forks octocat_repos)) = octocat_projects"
  unfolding top_repos_octocat
  by (simp add: enrich_def octocat_upstream_def example_repo_def commit_activity_url_def
      commit_weeks_def example_weeks_def recent_commits_def slice_from_def relative_index_def
      total_or_zero_def octocat_projects_def example_project_def)

lemma octocat_resolved:
  "get_user octocat_upstream (user_url ''octocat'') = Resolved (UserObject octocat_user)"
  "get_repos octocat_upstream (repos_url ''octocat'') = Resolved (RepoArray octocat_repos)"
  by (simp_all add: octocat_upstream_def)

lemma handler_octocat:
  "handler octocat_upstream (post (named ''octocat'')) = Inr octocat_effects"
proof -
  have "handler octocat_upstream (post (named ''octocat'')) =
     Inr \<lparr>status = 200,
          sent = SummaryJson (make_profile octocat_user) (language_stats (non_forks octocat_repos))
                   (map (enrich octocat_upstream ''octocat'') (top_repos (non_forks octocat_repos))),
          requests = [user_url ''octocat'', repos_url ''octocat'']
            @ map (\<lambda>r. commit_activity_url ''octocat'' (repo.name r))
                (top_repos (non_forks octocat_repos)),
          logged = 0\<rparr>"
    by (rule handler_resolved [OF post_named(1,2) _ octocat_resolved]) simp
  also have "\<dots> = Inr octocat_effects"
    by (simp only: enrich_octocat language_stats_octocat)
       (simp add: top_repos_octocat octocat_effects_def user_url_def repos_url_def
        commit_activity_url_def example_repo_def)
  finally show ?thesis .
qed

lemma handler_odd:
  "handler odd_upstream (post (named ''odd'')) = Inr odd_effects"
proof -
  have top: "top_repos (non_forks odd_repos) = odd_repos"
    by (simp add: top_repos_def non_forks_def odd_repos_def example_repo_def js_sort_def
        by_stars_def slice_def relative_index_def)
  have stats: "language_stats (non_forks odd_repos) =
      [(''constructor'', Text ''function Object() { [native code] }1'')]"
    by (simp add: language_stats_def non_forks_def odd_repos_def example_repo_def
        count_language_def bump_def next_value_def inherited_functions_def function_text_def)
  have "handler odd_upstream (post (named ''odd'')) =
     Inr \<lparr>status = 200,
          sent = SummaryJson (make_profile octocat_user) (language_stats (non_forks odd_repos))
                   (map (enrich odd_upstream ''odd'') (top_repos (non_forks odd_repos))),
          requests = [user_url ''odd'', repos_url ''odd'']
            @ map (\<lambda>r. commit_activity_url ''odd'' (repo.name r))
                (top_repos (non_forks odd_repos)),
          logged = 0\<rparr>"
    by (rule handler_resolved [OF post_named(1,2)]) (simp_all add: odd_upstream_def)
  also have "\<dots> = Inr odd_effects"
    unfolding top stats
    by (simp add: odd_effects_def odd_repos_def example_repo_def example_project_def
        enrich_def odd_upstream_def commit_weeks_def recent_commits_def slice_from_def
        relative_index_def user_url_def repos_url_def commit_activity_url_def)
  finally show ?thesis .
qed

lemma enrich_recent:
  "recentCommits (enrich up u r) = recent_commits (commitWeeks (enrich up u r))"
  by (simp add: enrich_def Let_def)

section \<open>The language statistics\<close>

lemma map_of_put: "map_of (put k v kvs) l = (if l = k then Some v else map_of kvs l)"
  by (induction k v kvs rule: put.induct) auto

lemma keys_put:
  "map fst (put k v kvs) = (if k \<in> fst ` set kvs then map fst kvs else map fst kvs @ [k])"
  by (induction k v kvs rule: put.induct) (auto simp: image_iff)

lemma distinct_bump:
  "distinct (map fst kvs) \<Longrightarrow> distinct (map fst (bump l kvs))"
  by (simp add: bump_def keys_put)

lemma map_of_bump:
  "map_of (bump l kvs) k =
     (if k = l \<and> l \<noteq> ''__proto__'' then Some (next_value l (map_of kvs l)) else map_of kvs k)"
  by (simp add: bump_def map_of_put)

lemma put_counts:
  assumes "list_all (\<lambda>kv. \<exists>n. snd kv = Count n) kvs"
  shows "list_all (\<lambda>kv. \<exists>n. snd kv = Count n) (put l (Count (Suc (count_at kvs l))) kvs)
       \<and> sum_list (map (count_of \<circ> snd) (put l (Count (Suc (count_at kvs l))) kvs)) =
           sum_list (map (count_of \<circ> snd) kvs) + 1"
  using assms
proof (induction kvs)
  case Nil
  then show ?case by (simp add: count_at_def)
next
  case (Cons kv kvs)
  obtain k v where kv: "kv = (k, v)" by (cases kv)
  show ?case
  proof (cases "k = l")
    case True
    then show ?thesis using Cons.prems kv by (auto simp: count_at_def)
  next
    case False
    then have "count_at (kv # kvs) l = count_at kvs l"
      by (simp add: count_at_def kv)
    then show ?thesis using False Cons kv by simp
  qed
qed

lemma next_value_plain:
  assumes "l \<notin> set inherited_functions" and "\<forall>s. map_of kvs l \<noteq> Some (Text s)"
  shows "next_value l (map_of kvs l) = Count (Suc (count_at kvs l))"
  using assms by (auto simp: next_value_def count_at_def split: option.splits stat.splits)

lemma counts_have_no_text:
  "list_all (\<lambda>kv. \<exists>n. snd kv = Count n) kvs \<Longrightarrow> map_of kvs l \<noteq> Some (Text s)"
  by (induction kvs) (auto split: if_splits)

lemma bump_counts:
  assumes "list_all (\<lambda>kv. \<exists>n. snd kv = Count n) kvs"
    and "l \<noteq> ''__proto__''" and "l \<notin> set inherited_functions"
  shows "list_all (\<lambda>kv. \<exists>n. snd kv = Count n) (bump l kvs)
       \<and> sum_list (map (count_of \<circ> snd) (bump l kvs)) = sum_list (map (count_of \<circ> snd) kvs) + 1"
proof -
  have "next_value l (map_of kvs l) = Count (Suc (count_at kvs l))"
    using assms(1,3) by (intro next_value_plain) (simp_all add: counts_have_no_text)
  then show ?thesis using put_counts [OF assms(1), of l] assms(2) by (simp add: bump_def)
qed

lemma count_language_cases:
  "count_language stats r =
     (case repo.language r of
        None \<Rightarrow> stats
      | Some l \<Rightarrow> if l = [] then stats else bump l stats)"
  by (simp add: count_language_def split: option.splits)

lemma distinct_foldl_count:
  "distinct (map fst acc) \<Longrightarrow> distinct (map fst (foldl count_language acc rs))"
proof (induction rs arbitrary: acc)
  case Nil
  then show ?case by simp
next
  case (Cons r rs)
  have "distinct (map fst (count_language acc r))"
    using Cons.prems by (simp add: count_language_cases distinct_bump split: option.splits)
  then show ?case using Cons.IH by simp
qed

lemma sum_foldl_count:
  assumes "list_all (\<lambda>kv. \<exists>n. snd kv = Count n) acc"
    and "list_all (\<lambda>r. repo.language r \<notin> Some ` set (''__proto__'' # inherited_functions)) rs"
  shows "list_all (\<lambda>kv. \<exists>n. snd kv = Count n) (foldl count_language acc rs)
       \<and> sum_list (map (count_of \<circ> snd) (foldl count_language acc rs)) =
           sum_list (map (count_of \<circ> snd) acc)
             + length (filter (\<lambda>r. repo.language r \<noteq> None \<and> repo.language r \<noteq> Some []) rs)"
  using assms
proof (induction rs arbitrary: acc)
  case Nil
  then show ?case by simp
next
  case (Cons r rs)
  have step: "list_all (\<lambda>kv. \<exists>n. snd kv = Count n) (count_language acc r)
      \<and> sum_list (map (count_of \<circ> snd) (count_language acc r)) =
          sum_list (map (count_of \<circ> snd) acc)
            + (if repo.language r \<noteq> None \<and> repo.language r \<noteq> Some [] then 1 else 0)"
  proof (cases "repo.language r")
    case None
    then show ?thesis using Cons.prems(1) by (simp add: count_language_cases)
  next
    case (Some l)
    show ?thesis
    proof (cases "l = []")
      case True
      then show ?thesis using Some Cons.prems(1) by (simp add: count_language_cases)
    next
      case False
      have "l \<noteq> ''__proto__''" and "l \<notin> set inherited_functions"
        using Cons.prems(2) Some by auto
      then show ?thesis
        using bump_counts [OF Cons.prems(1), of l] Some False
        by (simp add: count_language_cases)
    qed
  qed
  have rest: "list_all (\<lambda>r. repo.language r \<notin> Some ` set (''__proto__'' # inherited_functions)) rs"
    using Cons.prems(2) by simp
  define has_language where "has_language = (\<lambda>r :: repo. repo.language r \<noteq> None \<and> repo.language r \<noteq> Some [])"
  note now = conjunct2 [OF step, folded has_language_def]
  note later = Cons.IH [OF conjunct1 [OF step] rest, folded has_language_def]
  have "sum_list (map (count_of \<circ> snd) (foldl count_language acc (r # rs))) =
      sum_list (map (count_of \<circ> snd) acc) + (if has_language r then 1 else 0) + length (filter has_language rs)"
    by (simp only: foldl_Cons conjunct2 [OF later] now) (simp add: has_language_def)
  also have "\<dots> = sum_list (map (count_of \<circ> snd) acc) + length (filter has_language (r # rs))"
    by simp
  finally have total: "sum_list (map (count_of \<circ> snd) (foldl count_language acc (r # rs))) =
      sum_list (map (count_of \<circ> snd) acc) + length (filter has_language (r # rs))" .
  have every: "list_all (\<lambda>kv. \<exists>n. snd kv = Count n) (foldl count_language acc (r # rs))"
    using conjunct1 [OF later] by (simp only: foldl_Cons)
  show ?case
    using every total unfolding has_language_def by blast
qed

lemma map_of_count_language:
  "map_of (count_language acc r) l =
     (if repo.language r = Some l \<and> l \<noteq> [] \<and> l \<noteq> ''__proto__''
      then Some (next_value l (map_of acc l))
      else map_of acc l)"
  by (cases "repo.language r") (auto simp: count_language_cases map_of_bump)

lemma map_of_foldl_count:
  assumes "l \<noteq> []" and "l \<noteq> ''__proto__''" and "l \<notin> set inherited_functions"
    and "\<forall>s. map_of acc l \<noteq> Some (Text s)"
  shows "map_of (foldl count_language acc rs) l =
     (if filter (\<lambda>r. repo.language r = Some l) rs = [] then map_of acc l
      else Some (Count (count_at acc l + length (filter (\<lambda>r. repo.language r = Some l) rs))))"
  using assms(4)
proof (induction rs arbitrary: acc)
  case Nil
  then show ?case by simp
next
  case (Cons r rs)
  show ?case
  proof (cases "repo.language r = Some l")
    case True
    then have now: "map_of (count_language acc r) l = Some (Count (Suc (count_at acc l)))"
      using assms(1,2) next_value_plain [OF assms(3) Cons.prems]
      by (simp add: map_of_count_language)
    then have "\<forall>s. map_of (count_language acc r) l \<noteq> Some (Text s)"
      and "count_at (count_language acc r) l = Suc (count_at acc l)"
      by (simp_all add: count_at_def)
    then show ?thesis using True now Cons.IH [of "count_language acc r"] by simp
  next
    case False
    then have same: "map_of (count_language acc r) l = map_of acc l"
      by (simp add: map_of_count_language)
    then have "\<forall>s. map_of (count_language acc r) l \<noteq> Some (Text s)"
      and "count_at (count_language acc r) l = count_at acc l"
      using Cons.prems by (simp_all add: count_at_def)
    then show ?thesis using False same Cons.IH [of "count_language acc r"] by simp
  qed
qed

lemma map_of_foldl_count_skipped:
  "l = [] \<or> l = ''__proto__'' \<Longrightarrow> map_of (foldl count_language acc rs) l = map_of acc l"
  by (induction rs arbitrary: acc) (auto simp: map_of_count_language)

lemma map_of_foldl_count_absent:
  "filter (\<lambda>r. repo.language r = Some l) rs = [] \<Longrightarrow>
     map_of (foldl count_language acc rs) l = map_of acc l"
  by (induction rs arbitrary: acc) (simp_all add: map_of_count_language split: if_splits)

lemma map_of_language_stats:
  assumes "l \<notin> set inherited_functions"
  shows "map_of (language_stats rs) l =
     (if l = [] \<or> l = ''__proto__'' \<or> filter (\<lambda>r. repo.language r = Some l) rs = [] then None
      else Some (Count (length (filter (\<lambda>r. repo.language r = Some l) rs))))"
proof (cases "l = [] \<or> l = ''__proto__''")
  case True
  have none: "map_of (language_stats rs) l = None"
    using map_of_foldl_count_skipped [OF True, of "[]" rs] by (simp add: language_stats_def)
  have "(l = [] \<or> l = ''__proto__'' \<or> filter (\<lambda>r. repo.language r = Some l) rs = []) = True"
    using True by blast
  then show ?thesis unfolding none by (simp only: if_True)
next
  case False
  then show ?thesis
    using map_of_foldl_count [of l "[]" rs] assms
    by (simp add: language_stats_def count_at_def)
qed

lemma sum_language_stats:
  assumes "list_all (\<lambda>r. repo.language r \<notin> Some ` set (''__proto__'' # inherited_functions)) rs"
  shows "list_all (\<lambda>kv. \<exists>n. snd kv = Count n) (language_stats rs)
       \<and> sum_list (map (count_of \<circ> snd) (language_stats rs)) =
           length (filter (\<lambda>r. repo.language r \<noteq> None \<and> repo.language r \<noteq> Some []) rs)"
  using sum_foldl_count [of "[]" rs] assms by (simp add: language_stats_def)

lemma distinct_language_stats: "distinct (map fst (language_stats rs))"
  by (simp add: language_stats_def distinct_foldl_count)

lemma filter_non_forks:
  "filter P (non_forks rs) = filter (\<lambda>r. \<not> fork r \<and> P r) rs"
  by (simp add: non_forks_def conj_commute)

section \<open>The ranking and the enrichment\<close>

lemma consistent_by_stars: "consistent_comparator by_stars"
  by (auto simp: consistent_comparator_def by_stars_def)

lemma top_repos_take: "top_repos rs = take 3 (js_sort by_stars rs)"
  by (simp add: top_repos_def slice_0)

lemma sorted_ranked:
  "sorted_wrt (\<lambda>a b. stargazers_count b \<le> stargazers_count a) (js_sort by_stars rs)"
  using sorted_js_sort [OF consistent_by_stars, of rs] by (simp add: by_stars_def)

lemma ranked_stable:
  "filter (\<lambda>r. stargazers_count r = k) (js_sort by_stars rs) =
     filter (\<lambda>r. stargazers_count r = k) rs"
  by (rule js_sort_stable) (simp add: by_stars_def)

lemma length_top_repos: "length (top_repos rs) = min 3 (length rs)"
  by (simp add: top_repos_take length_js_sort min.commute)

lemma set_top_repos: "set (top_repos rs) \<subseteq> set rs"
  using set_take_subset [of 3 "js_sort by_stars rs"] by (simp add: top_repos_take set_js_sort)

lemma sorted_top_repos:
  "sorted_wrt (\<lambda>a b. stargazers_count b \<le> stargazers_count a) (top_repos rs)"
  unfolding top_repos_take by (rule sorted_wrt_take) (rule sorted_ranked)

lemma top_repos_are_top:
  assumes "a \<in> set (top_repos rs)" and "b \<in> set rs" and "b \<notin> set (top_repos rs)"
  shows "stargazers_count b \<le> stargazers_count a"
proof -
  let ?ranked = "js_sort by_stars rs"
  have "sorted_wrt (\<lambda>a b. stargazers_count b \<le> stargazers_count a)
      (take 3 ?ranked @ drop 3 ?ranked)"
    using sorted_ranked [of rs] by simp
  then have le: "\<forall>x \<in> set (take 3 ?ranked). \<forall>y \<in> set (drop 3 ?ranked).
      stargazers_count y \<le> stargazers_count x"
    unfolding sorted_wrt_append by blast
  have "b \<in> set (take 3 ?ranked @ drop 3 ?ranked)"
    using assms(2) by (simp add: set_js_sort)
  then have "b \<in> set (drop 3 ?ranked)"
    using assms(3) unfolding top_repos_take set_append by blast
  then show ?thesis using le assms(1) unfolding top_repos_take by blast
qed

lemma top_repos_ties:
  "prefix (filter (\<lambda>r. stargazers_count r = k) (top_repos rs))
     (filter (\<lambda>r. stargazers_count r = k) rs)"
proof -
  have "prefix (filter (\<lambda>r. stargazers_count r = k) (take 3 (js_sort by_stars rs)))
      (filter (\<lambda>r. stargazers_count r = k) (js_sort by_stars rs))"
    by (rule filter_mono_prefix) (rule take_is_prefix)
  then show ?thesis by (simp add: top_repos_take ranked_stable)
qed

lemma enrich_fields:
  "project.name (enrich up u r) = repo.name r"
  "stars (enrich up u r) = stargazers_count r"
  "project.language (enrich up u r) = repo.language r"
  "project.html_url (enrich up u r) = repo.html_url r"
  by (simp_all add: enrich_def Let_def)

lemma commit_activity_url_inject:
  "commit_activity_url u n = commit_activity_url u n' \<longleftrightarrow> n = n'"
  unfolding commit_activity_url_def append_assoc [symmetric] append_same_eq same_append_eq ..

lemma enrich_cong:
  "get_commit_activity up' (commit_activity_url u (repo.name r)) =
     get_commit_activity up (commit_activity_url u (repo.name r))
   \<Longrightarrow> enrich up' u r = enrich up u r"
  by (simp add: enrich_def)

lemma enrich_unavailable:
  assumes "get_commit_activity up (commit_activity_url u (repo.name r)) = Rejected
     \<or> get_commit_activity up (commit_activity_url u (repo.name r)) = Resolved NotComputed"
  shows "commitWeeks (enrich up u r) = []" and "recentCommits (enrich up u r) = 0"
  using assms
  by (auto simp: enrich_def commit_weeks_def recent_commits_def slice_from_def Let_def)

lemma octocat_sent:
  "sent octocat_effects =
     SummaryJson (make_profile octocat_user)
       [(''TypeScript'', Count 1), (''Python'', Count 2), (''HTML'', Count 1)] octocat_projects"
  by (simp add: octocat_effects_def)

section \<open>Letters and their case\<close>

lemma toLowerCase_keywords: "k \<in> set compatibleTopics \<Longrightarrow> toLowerCase k = k"
  by (auto simp: compatibleTopics_def toLowerCase_def lower_char_def)

lemma capital_iff: "is_capital c \<longleftrightarrow> c \<in> set ''ABCDEFGHIJKLMNOPQRSTUVWXYZ''"
proof -
  have "c \<in> set ''ABCDEFGHIJKLMNOPQRSTUVWXYZ'' \<longleftrightarrow>
      (of_char c :: nat) \<in> of_char ` set ''ABCDEFGHIJKLMNOPQRSTUVWXYZ''"
    by (auto simp del: set_simps list.set)
  also have "\<dots> \<longleftrightarrow> 65 \<le> (of_char c :: nat) \<and> (of_char c :: nat) \<le> 90"
    by simp arith
  finally show ?thesis by (simp add: is_capital_def)
qed

lemma lower_capital:
  "c \<in> set ''ABCDEFGHIJKLMNOPQRSTUVWXYZ'' \<Longrightarrow> (of_char (lower_char c) :: nat) = of_char c + 32"
  by (auto simp: lower_char_def)

lemma lower_other:
  "c \<notin> set ''ABCDEFGHIJKLMNOPQRSTUVWXYZ'' \<Longrightarrow> lower_char c = c"
  by (simp add: lower_char_def)

lemma lower_char_code:
  "(of_char (lower_char c) :: nat) = (if is_capital c then of_char c + 32 else of_char c)"
  using lower_capital [of c] lower_other [of c] by (simp add: capital_iff)

lemma same_letter_iff: "same_letter c d \<longleftrightarrow> lower_char c = lower_char d"
proof -
  have "lower_char c = lower_char d \<longleftrightarrow>
      (of_char (lower_char c) :: nat) = of_char (lower_char d)"
    by simp
  also have "\<dots> \<longleftrightarrow> same_letter c d"
    unfolding lower_char_code same_letter_def
    by (cases "c = d") (auto simp: is_capital_def)
  finally show ?thesis by simp
qed

lemma equal_ignoring_case_iff:
  "equal_ignoring_case a b \<longleftrightarrow> toLowerCase a = toLowerCase b"
  unfolding equal_ignoring_case_def toLowerCase_def
proof (induction a arbitrary: b)
  case Nil
  show ?case by auto
next
  case (Cons c a)
  then show ?case by (cases b) (simp_all add: same_letter_iff)
qed

section \<open>Comparators and the displayed list\<close>

lemma consistent_linorder_compare:
  "consistent_comparator (\<lambda>a b :: 'a :: linorder. if a < b then - 1 else if b < a then 1 else (0 :: int))"
  unfolding consistent_comparator_def by (auto dest: less_trans)

lemma consistent_code_unit_compare: "consistent_comparator code_unit_compare"
  using consistent_linorder_compare [where 'a = string]
  unfolding code_unit_compare_def [abs_def] .

lemma sort_comparator_cases:
  "sort_comparator lc key = (\<lambda>a b. stars b - stars a)
   \<or> sort_comparator lc key = (\<lambda>a b. recentCommits b - recentCommits a)
   \<or> sort_comparator lc key = (\<lambda>a b. lc (project.name a) (project.name b))
   \<or> sort_comparator lc key = (\<lambda>a b. 0)"
  unfolding sort_comparator_def [abs_def]
  by (cases "key = ''stars''"; cases "key = ''recent''"; cases "key = ''name''"; simp)

lemma consistent_difference:
  "consistent_comparator (\<lambda>a b. (f b :: int) - f a)"
  unfolding consistent_comparator_def by auto

lemma consistent_on_names:
  assumes "consistent_comparator lc"
  shows "consistent_comparator (\<lambda>a b. lc (f a) (f b))"
  using assms unfolding consistent_comparator_def by blast

lemma consistent_zero: "consistent_comparator (\<lambda>a b. 0)"
  unfolding consistent_comparator_def by simp

lemma consistent_sort_comparator:
  assumes "consistent_comparator lc"
  shows "consistent_comparator (sort_comparator lc key)"
  using sort_comparator_cases [of lc key] consistent_difference [of stars]
    consistent_difference [of recentCommits] consistent_on_names [OF assms, of project.name]
    consistent_zero [where 'a = project]
  by (elim disjE) simp_all

lemma consistent_ties:
  assumes "consistent_comparator c" and "c a x = 0" and "c b x = 0"
  shows "c a b \<le> 0"
proof -
  have sign: "c x b < 0 \<longleftrightarrow> 0 < c b x" "c b x < 0 \<longleftrightarrow> 0 < c x b"
    using assms(1) unfolding consistent_comparator_def by blast+
  have trans: "c a x \<le> 0 \<and> c x b \<le> 0 \<longrightarrow> c a b \<le> 0"
    using assms(1) unfolding consistent_comparator_def by blast
  have "c x b \<le> 0" using sign assms(3) by simp
  then show ?thesis using trans assms(2) by simp
qed

lemma getFilteredProjects_unfiltered:
  assumes "data st = Some d" and "projects d = Some a" and "filterLanguage st = []"
  shows "getFilteredProjects lc st h =
     (length h, h @ [js_sort (sort_comparator lc (sortBy st)) (h ! a)])"
  using assms
  by (simp add: getFilteredProjects_def spread_def alloc_def array_sort_def)

lemma getFilteredProjects_filtered:
  assumes "data st = Some d" and "projects d = Some a" and "filterLanguage st \<noteq> []"
  shows "getFilteredProjects lc st h =
     (length h + 1,
      h @ [h ! a,
           js_sort (sort_comparator lc (sortBy st))
             (filter (\<lambda>proj. project.language proj = Some (filterLanguage st)) (h ! a))])"
  using assms
  by (simp add: getFilteredProjects_def spread_def alloc_def array_sort_def array_filter_def
      nth_append list_update_append)

lemma name_sort_octocat:
  "js_sort (sort_comparator code_unit_compare ''name'') octocat_projects = octocat_by_name"
  by (simp add: js_sort_def sort_comparator_def code_unit_compare_def octocat_projects_def
      octocat_by_name_def example_project_def)

section \<open>The page\<close>

lemma click_keeps_home:
  "home_state (click displayed pg target) = home_state pg"
  "arrays (click displayed pg target) = arrays pg"
  by (simp_all add: click_def split: option.splits)

lemma click_keeps_card_list:
  "card_list lc (click displayed pg target) = card_list lc pg"
  by (simp add: card_list_def click_keeps_home)

lemma step_keeps_maximizedProject:
  "maximizedProject (home_state (step lc trim pg ev)) = maximizedProject (home_state pg)"
  by (cases ev)
     (auto simp: step_def click_keeps_home render_def fetchProfile_def alloc_def Let_def
       split: fetch_outcome.splits option.splits)

lemma steps_keep_maximizedProject:
  "maximizedProject (home_state (foldl (step lc trim) pg evs)) = maximizedProject (home_state pg)"
  by (induction evs arbitrary: pg) (simp_all add: step_keeps_maximizedProject)

lemma web_fetched:
  "foldl (step code_unit_compare trim_spaces) initial_page (take 2 web_session) = fetched_page"
  by (simp add: web_session_def step_def initial_page_def fetchProfile_def trim_spaces_def
      alloc_def fetched_page_def)

lemma web_card_list:
  "card_list code_unit_compare fetched_page =
     [example_project ''hello'' (Some ''TypeScript'') 10 [] 0,
      example_project ''site'' (Some ''HTML'') 3 [] 0]"
proof -
  have d: "data (home_state fetched_page) =
      Some \<lparr>profile = web_profile,
            languageStats = [(''HTML'', Count 1), (''TypeScript'', Count 1)],
            projects = Some 0\<rparr>"
    and f: "filterLanguage (home_state fetched_page) = []"
    and k: "sortBy (home_state fetched_page) = ''stars''"
    by (simp_all add: fetched_page_def)
  have a: "projects \<lparr>profile = web_profile,
            languageStats = [(''HTML'', Count 1), (''TypeScript'', Count 1)],
            projects = Some 0\<rparr> = Some 0"
    by simp
  note shown = getFilteredProjects_unfiltered
    [OF d a f, of code_unit_compare "arrays fetched_page"]
  show ?thesis
    unfolding card_list_def displayed_projects_def shown k
    by (simp add: fetched_page_def web_projects_def js_sort_def sort_comparator_def
        example_project_def)
qed

lemma web_compatible:
  "isSandboxCompatible (example_project ''site'' (Some ''HTML'') 3 [] 0)"
  "isSandboxCompatible (example_project ''hello'' (Some ''TypeScript'') 10 [] 0)"
  "project.name (example_project ''site'' (Some ''HTML'') 3 [] 0) = ''site''"
  "project.name (example_project ''hello'' (Some ''TypeScript'') 10 [] 0) = ''hello''"
  by (simp_all add: isSandboxCompatible_def example_project_def compatibleLanguages_def)

lemma web_page_eval:
  "home_state web_page = home_state fetched_page"
  "arrays web_page = arrays fetched_page"
  "cards web_page ''site'' = \<lparr>showSandbox = True, isMaximized = True\<rparr>"
  "cards web_page ''hello'' = \<lparr>showSandbox = True, isMaximized = True\<rparr>"
proof -
  have split: "web_session = take 2 web_session @
      [Click ''site'' ClickToggle, Click ''hello'' ClickToggle,
       Click ''site'' ClickMaximize, Click ''hello'' ClickMaximize]"
    by (simp add: web_session_def)
  have run: "web_page =
      click (card_list code_unit_compare fetched_page)
        (click (card_list code_unit_compare fetched_page)
          (click (card_list code_unit_compare fetched_page)
            (click (card_list code_unit_compare fetched_page) fetched_page
               (''site'', ClickToggle))
            (''hello'', ClickToggle))
          (''site'', ClickMaximize))
        (''hello'', ClickMaximize)"
    unfolding web_page_def
    by (subst split) (simp add: web_fetched step_def click_keeps_card_list)
  show "home_state web_page = home_state fetched_page"
    and "arrays web_page = arrays fetched_page"
    unfolding run by (simp_all add: click_keeps_home)
  show "cards web_page ''site'' = \<lparr>showSandbox = True, isMaximized = True\<rparr>"
    and "cards web_page ''hello'' = \<lparr>showSandbox = True, isMaximized = True\<rparr>"
    unfolding run web_card_list
    by (simp_all add: click_def fetched_page_def web_compatible card_click_def ProjectCard_def
        new_card_def toggleSandbox_def toggleMaximize_def)
qed

lemma a_card_that_leaves_the_list_is_reset:
  "expanded code_unit_compare
     (foldl (step code_unit_compare trim_spaces) web_page [ChangeFilter ''HTML'', ChangeFilter []])
   = [''site'']"
proof -
  let ?st = "home_state fetched_page"
  have d: "data ?st =
      Some \<lparr>profile = web_profile,
            languageStats = [(''HTML'', Count 1), (''TypeScript'', Count 1)],
            projects = Some 0\<rparr>"
    by (simp add: fetched_page_def)
  have a: "projects \<lparr>profile = web_profile,
            languageStats = [(''HTML'', Count 1), (''TypeScript'', Count 1)],
            projects = Some 0\<rparr> = Some 0"
    by simp
  have langs: "getAvailableLanguages ?st (arrays fetched_page) = [''HTML'', ''TypeScript'']"
    by (simp add: getAvailableLanguages_def fetched_page_def web_projects_def
        example_project_def)
  have html: "card_list code_unit_compare
      (web_page\<lparr>home_state := ?st\<lparr>filterLanguage := ''HTML''\<rparr>\<rparr>) =
      [example_project ''site'' (Some ''HTML'') 3 [] 0]"
    unfolding card_list_def displayed_projects_def
    by (simp add: web_page_eval
          getFilteredProjects_filtered [of "?st\<lparr>filterLanguage := ''HTML''\<rparr>", OF _ a] d)
       (simp add: fetched_page_def web_projects_def example_project_def js_sort_def)
  have first: "step code_unit_compare trim_spaces web_page (ChangeFilter ''HTML'') =
      web_page\<lparr>home_state := ?st\<lparr>filterLanguage := ''HTML''\<rparr>,
                cards := (\<lambda>key. if key = ''site'' then cards web_page key else new_card)\<rparr>"
    by (simp add: step_def render_def web_page_eval d langs html web_compatible cong: if_cong)
  let ?pg = "web_page\<lparr>home_state := ?st\<lparr>filterLanguage := ''HTML''\<rparr>,
                cards := (\<lambda>key. if key = ''site'' then cards web_page key else new_card)\<rparr>"
  have all: "card_list code_unit_compare
      (?pg\<lparr>home_state := (home_state ?pg)\<lparr>filterLanguage := []\<rparr>\<rparr>) =
      [example_project ''hello'' (Some ''TypeScript'') 10 [] 0,
       example_project ''site'' (Some ''HTML'') 3 [] 0]"
    unfolding card_list_def displayed_projects_def
    by (simp add: web_page_eval
          getFilteredProjects_unfiltered [of "?st\<lparr>filterLanguage := []\<rparr>", OF _ a] d)
       (simp add: fetched_page_def web_projects_def example_project_def js_sort_def
          sort_comparator_def)
  have second: "cards (step code_unit_compare trim_spaces ?pg (ChangeFilter [])) ''hello'' = new_card"
    "cards (step code_unit_compare trim_spaces ?pg (ChangeFilter [])) ''site'' =
       \<lparr>showSandbox = True, isMaximized = True\<rparr>"
    "card_list code_unit_compare (step code_unit_compare trim_spaces ?pg (ChangeFilter [])) =
      [example_project ''hello'' (Some ''TypeScript'') 10 [] 0,
       example_project ''site'' (Some ''HTML'') 3 [] 0]"
    using all
    by (simp_all add: step_def render_def d web_page_eval web_compatible card_list_def)
  show ?thesis
    by (simp add: first second expanded_def web_compatible new_card_def)
qed

section \<open>The claims about the aggregator\<close>

text \<open>
  C10. A request whose method is not POST is answered with status 405 and an empty body.
  No URL is requested from the upstream, and the body of the request is not read: the
  answer is the same whatever the body is, also when reading it would throw, and
  whatever the upstream would answer.
\<close>

theorem other_methods_get_405:
  assumes "http_method req \<noteq> ''POST''"
  shows "handler up req = Inr \<lparr>status = 405, sent = EndEmpty, requests = [], logged = 0\<rparr>
       \<and> (\<forall>b up'. handler up' (req\<lparr>body := b\<rparr>) = handler up req)"
  using assms by (simp add: handler_def)

text \<open>A GET request with no body at all.\<close>

theorem other_methods_get_405_witness:
  "http_method \<lparr>http_method = ''GET'', body = JUndefined\<rparr> \<noteq> ''POST''
   \<and> handler octocat_upstream \<lparr>http_method = ''GET'', body = JUndefined\<rparr> =
       Inr \<lparr>status = 405, sent = EndEmpty, requests = [], logged = 0\<rparr>
   \<and> handler octocat_upstream \<lparr>http_method = ''GET'', body = named ''octocat''\<rparr> =
       handler octocat_upstream \<lparr>http_method = ''GET'', body = JUndefined\<rparr>"
proof -
  have m: "http_method \<lparr>http_method = ''GET'', body = JUndefined\<rparr> \<noteq> ''POST''" by simp
  show ?thesis
    using m other_methods_get_405 [OF m, of octocat_upstream]
    by (metis (no_types) request.simps(3) request.update_convs(2))
qed

text \<open>
  C1, as stated, fails: the handler has no check of the username. A POST request whose
  body has no \<open>username\<close> makes the handler request the profile of the account
  \<open>undefined\<close>; the upstream of the test data does not know it, and the answer is the
  server-error status 500, not a client-error status.
\<close>

theorem missing_username_reaches_upstream:
  "handler octocat_upstream (post (JObject [])) =
     Inr \<lparr>status = 500, sent = ErrorJson ''Failed to fetch GitHub data.'',
          requests = [''https://api.github.com/users/undefined''], logged = 1\<rparr>"
  by (simp add: handler_def post_def read_username_def octocat_upstream_def user_url_def
      failure_def)

text \<open>
  C1, amended. For every POST request whose body has properties, the handler does not
  validate the username. Its answer has status 200 or 500, never a client-error status.
  A username that can be interpolated into a URL, a missing one (\<open>undefined\<close>), \<open>null\<close>
  and the empty string among them, makes the handler contact the upstream, first with
  the profile request for the interpolated username. When the profile request or the
  repository-list request is rejected, the status is 500.
\<close>

theorem post_is_never_validated:
  assumes "http_method req = ''POST''" and "read_username (body req) = Inr v"
  shows "\<exists>e. handler up req = Inr e
     \<and> (status e = 200 \<or> status e = 500)
     \<and> (\<forall>u. template_string v = Some u \<longrightarrow>
           requests e \<noteq> [] \<and> hd (requests e) = user_url u)
     \<and> (\<forall>u. template_string v = Some u
             \<and> (get_user up (user_url u) = Rejected \<or> get_repos up (repos_url u) = Rejected)
           \<longrightarrow> status e = 500)"
proof (cases "template_string v")
  case None
  then show ?thesis
    using assms by (simp add: handler_def failure_def)
next
  case (Some u)
  show ?thesis
  proof (cases "get_user up (user_url u)")
    case Rejected
    then show ?thesis
      using assms Some by (simp add: handler_def failure_def)
  next
    case (Resolved profile_body)
    show ?thesis
    proof (cases profile_body)
      case NullData
      then show ?thesis
        using assms Some Resolved by (simp add: handler_def failure_def)
    next
      case (UserObject d)
      then show ?thesis
        using assms Some Resolved
        by (cases "get_repos up (repos_url u)")
           (simp_all add: handler_def failure_def Let_def split: repos_body.splits)
    qed
  qed
qed

text \<open>
  The request without a username, against the upstream of the test data; and, in what
  the handler does beyond the amended claim, a username that is an object with its own
  \<open>toString\<close> (no request is made), and a repository list that is no array (two requests
  are made and none is rejected), both answered with 500.
\<close>

theorem post_is_never_validated_witness:
  "http_method (post (JObject [])) = ''POST''
   \<and> read_username (body (post (JObject []))) = Inr JUndefined
   \<and> template_string JUndefined = Some ''undefined''
   \<and> (\<exists>e. handler octocat_upstream (post (JObject [])) = Inr e
        \<and> hd (requests e) = ''https://api.github.com/users/undefined''
        \<and> status e = 500)
   \<and> handler octocat_upstream
        (post (JObject [(''username'', JObject [(''toString'', JNumber ''1'')])])) =
       Inr \<lparr>status = 500, sent = ErrorJson ''Failed to fetch GitHub data.'',
            requests = [], logged = 1\<rparr>
   \<and> handler profile_only_upstream (post (named ''octocat#'')) =
       Inr \<lparr>status = 500, sent = ErrorJson ''Failed to fetch GitHub data.'',
            requests = [''https://api.github.com/users/octocat#'',
                        ''https://api.github.com/users/octocat#/repos?per_page=100&sort=updated''],
            logged = 1\<rparr>"
proof -
  have rejected: "get_user octocat_upstream (user_url ''undefined'') = Rejected"
    by (simp add: octocat_upstream_def user_url_def)
  obtain e where "handler octocat_upstream (post (JObject [])) = Inr e"
    and "requests e \<noteq> [] \<and> hd (requests e) = user_url ''undefined''"
    and "status e = 500"
    using post_is_never_validated [OF post_named(1) post_named(3), of octocat_upstream] rejected
    by auto
  then have "\<exists>e. handler octocat_upstream (post (JObject [])) = Inr e
        \<and> hd (requests e) = ''https://api.github.com/users/undefined''
        \<and> status e = 500"
    by (auto simp: user_url_def)
  moreover have "handler octocat_upstream
        (post (JObject [(''username'', JObject [(''toString'', JNumber ''1'')])])) =
       Inr \<lparr>status = 500, sent = ErrorJson ''Failed to fetch GitHub data.'',
            requests = [], logged = 1\<rparr>"
    by (simp add: handler_def post_def read_username_def failure_def)
  moreover have "handler profile_only_upstream (post (named ''octocat#'')) =
       Inr \<lparr>status = 500, sent = ErrorJson ''Failed to fetch GitHub data.'',
            requests = [''https://api.github.com/users/octocat#'',
                        ''https://api.github.com/users/octocat#/repos?per_page=100&sort=updated''],
            logged = 1\<rparr>"
    by (simp add: handler_def post_def named_def read_username_def failure_def
        profile_only_upstream_def user_url_def repos_url_def)
  ultimately show ?thesis
    using post_named(1) post_named(3) by simp
qed

text \<open>
  C3. For every project of the aggregation result, with the weekly series \<open>commitWeeks\<close>
  of length \<open>N\<close>: \<open>recentCommits\<close> is the sum of the totals of the last four entries when
  \<open>N \<ge> 4\<close>, the sum of the totals of all entries when \<open>0 < N < 4\<close>, and 0 when \<open>N = 0\<close>.
  The total of an entry is \<^verbatim>\<open>w.total || 0\<close>.
\<close>

theorem recent_commits_last_four_weeks:
  assumes "handler up req = Inr e" and "sent e = SummaryJson prof stats ps" and "p \<in> set ps"
  shows "(4 \<le> length (commitWeeks p) \<longrightarrow>
            recentCommits p =
              (\<Sum>i = length (commitWeeks p) - 4..<length (commitWeeks p).
                 total_or_zero (commitWeeks p ! i)))
       \<and> (0 < length (commitWeeks p) \<and> length (commitWeeks p) < 4 \<longrightarrow>
            recentCommits p = sum_list (map total_or_zero (commitWeeks p)))
       \<and> (length (commitWeeks p) = 0 \<longrightarrow> recentCommits p = 0)"
proof -
  obtain u rs where "ps = map (enrich up u) (top_repos (non_forks rs))"
    using assms(1,2) by (rule handler_summary)
  with assms(3) obtain r where p: "p = enrich up u r"
    by auto
  have sum: "recentCommits p =
      sum_list (map total_or_zero (drop (length (commitWeeks p) - 4) (commitWeeks p)))"
    unfolding p by (simp only: enrich_recent recent_commits_sum)
  have "recentCommits p =
      (\<Sum>i = length (commitWeeks p) - 4..<length (commitWeeks p).
         total_or_zero (commitWeeks p ! i))"
    unfolding sum by (rule sum_list_drop_nth)
  moreover have "length (commitWeeks p) < 4 \<Longrightarrow>
      recentCommits p = sum_list (map total_or_zero (commitWeeks p))"
    unfolding sum by simp
  moreover have "length (commitWeeks p) = 0 \<Longrightarrow> recentCommits p = 0"
    unfolding sum by simp
  ultimately show ?thesis by blast
qed

text \<open>The most starred repository of the test data has six weeks: 5, 1, 2, 3, 4, 0.\<close>

theorem recent_commits_last_four_weeks_witness:
  "handler octocat_upstream (post (named ''octocat'')) = Inr octocat_effects
   \<and> sent octocat_effects =
       SummaryJson (make_profile octocat_user)
         [(''TypeScript'', Count 1), (''Python'', Count 2), (''HTML'', Count 1)] octocat_projects
   \<and> hd octocat_projects \<in> set octocat_projects
   \<and> length (commitWeeks (hd octocat_projects)) = 6
   \<and> recentCommits (hd octocat_projects) =
       (\<Sum>i = 2..<6. total_or_zero (commitWeeks (hd octocat_projects) ! i))
   \<and> recentCommits (hd octocat_projects) = 2 + 3 + 4 + 0"
proof -
  have sent: "sent octocat_effects =
       SummaryJson (make_profile octocat_user)
         [(''TypeScript'', Count 1), (''Python'', Count 2), (''HTML'', Count 1)] octocat_projects"
    by (simp add: octocat_effects_def)
  have mem: "hd octocat_projects \<in> set octocat_projects"
    by (simp add: octocat_projects_def)
  have len: "length (commitWeeks (hd octocat_projects)) = 6"
    by (simp add: octocat_projects_def example_project_def)
  have "recentCommits (hd octocat_projects) =
       (\<Sum>i = 2..<6. total_or_zero (commitWeeks (hd octocat_projects) ! i))"
    using recent_commits_last_four_weeks [OF handler_octocat sent mem] len by simp
  moreover have "recentCommits (hd octocat_projects) = 2 + 3 + 4 + 0"
    by (simp add: octocat_projects_def example_project_def)
  ultimately show ?thesis
    using handler_octocat sent mem len by blast
qed

text \<open>
  C4, as stated, fails. The account of the test data has two repositories, none a fork
  and each with a primary language that is not \<open>null\<close>: the empty string, and the name
  \<open>constructor\<close>. The empty string is falsy and is not counted; under \<open>constructor\<close> the
  object \<open>languageStats\<close> inherits a function, and \<^verbatim>\<open>+ 1\<close> makes a string of it. The
  statistics hold no counter at all, where the claim has two counters of 1.
\<close>

theorem nameless_and_inherited_languages_are_not_counted:
  "handler odd_upstream (post (named ''odd'')) = Inr odd_effects
   \<and> sent odd_effects =
       SummaryJson (make_profile octocat_user)
         [(''constructor'', Text ''function Object() { [native code] }1'')]
         [example_project ''blank'' (Some []) 2 [] 0,
          example_project ''ctor'' (Some ''constructor'') 1 [] 0]
   \<and> map fork odd_repos = [False, False]
   \<and> map repo.language odd_repos = [Some [], Some ''constructor'']"
  using handler_odd by (simp add: odd_effects_def odd_repos_def example_repo_def)

text \<open>
  C4, amended. For every fetched repository list in which no primary language is the name
  of a property that every object inherits (\<open>__proto__\<close>, \<open>constructor\<close>, \<open>toString\<close> and
  the others of \<open>Object.prototype\<close>), the language statistics count exactly the non-fork
  repositories with a primary language that is neither \<open>null\<close> nor the empty string: the
  value of a language is the count of the non-fork repositories with this primary
  language (and the language has no key when there is none, or when it is the empty
  string), no language has two keys, every value is a count, and the counts sum to the
  number of non-fork repositories with a primary language that is neither \<open>null\<close> nor
  empty.
\<close>

theorem language_statistics_count_non_forks:
  assumes "handler up req = Inr e" and "sent e = SummaryJson prof stats ps"
    and "read_username (body req) = Inr v" and "template_string v = Some u"
    and "get_repos up (repos_url u) = Resolved (RepoArray rs)"
    and "list_all (\<lambda>r. repo.language r \<notin> Some ` set (''__proto__'' # inherited_functions)) rs"
  shows "distinct (map fst stats)
       \<and> (\<forall>l. map_of stats l =
              (if l = [] \<or> filter (\<lambda>r. \<not> fork r \<and> repo.language r = Some l) rs = []
               then None
               else Some (Count (length
                      (filter (\<lambda>r. \<not> fork r \<and> repo.language r = Some l) rs)))))
       \<and> list_all (\<lambda>kv. \<exists>n. snd kv = Count n) stats
       \<and> sum_list (map (count_of \<circ> snd) stats) =
            length (filter (\<lambda>r. \<not> fork r \<and> repo.language r \<noteq> None
                                \<and> repo.language r \<noteq> Some []) rs)"
proof -
  obtain v' u' rs' where "read_username (body req) = Inr v'" and "template_string v' = Some u'"
    and "get_repos up (repos_url u') = Resolved (RepoArray rs')"
    and "stats = language_stats (non_forks rs')"
    using assms(1,2) by (rule handler_summary)
  with assms(3,4,5) have stats: "stats = language_stats (non_forks rs)" by simp
  have plain: "list_all (\<lambda>r. repo.language r \<notin> Some ` set (''__proto__'' # inherited_functions))
      (non_forks rs)"
    using assms(6) by (simp add: non_forks_def list_all_iff)
  have "distinct (map fst stats)"
    unfolding stats by (rule distinct_language_stats)
  moreover have "map_of stats l =
      (if l = [] \<or> filter (\<lambda>r. \<not> fork r \<and> repo.language r = Some l) rs = [] then None
       else Some (Count (length (filter (\<lambda>r. \<not> fork r \<and> repo.language r = Some l) rs))))"
    for l
  proof (cases "l \<in> set (''__proto__'' # inherited_functions)")
    case True
    then have none: "filter (\<lambda>r. \<not> fork r \<and> repo.language r = Some l) rs = []"
      using assms(6) by (auto simp: filter_empty_conv list_all_iff)
    have "filter (\<lambda>r. repo.language r = Some l) (non_forks rs) = []"
      using none by (simp add: filter_non_forks)
    then have "map_of (foldl count_language [] (non_forks rs)) l = None"
      using map_of_foldl_count_absent [of l "non_forks rs" "[]"] by simp
    then show ?thesis using none by (simp add: stats language_stats_def)
  next
    case False
    then have "l \<notin> set inherited_functions" and "l \<noteq> ''__proto__''" by simp_all
    then show ?thesis
      using map_of_language_stats [of l "non_forks rs"]
      by (simp add: stats filter_non_forks)
  qed
  moreover have "list_all (\<lambda>kv. \<exists>n. snd kv = Count n) stats"
    and "sum_list (map (count_of \<circ> snd) stats) =
      length (filter (\<lambda>r. \<not> fork r \<and> repo.language r \<noteq> None
                          \<and> repo.language r \<noteq> Some []) rs)"
    using sum_language_stats [OF plain] by (simp_all add: stats filter_non_forks)
  ultimately show ?thesis by blast
qed

text \<open>
  The test account: four of its five non-fork repositories have a language, two of them
  Python; the fork is the only Ruby repository.
\<close>

theorem language_statistics_count_non_forks_witness:
  "handler octocat_upstream (post (named ''octocat'')) = Inr octocat_effects
   \<and> sent octocat_effects =
       SummaryJson (make_profile octocat_user)
         [(''TypeScript'', Count 1), (''Python'', Count 2), (''HTML'', Count 1)] octocat_projects
   \<and> read_username (body (post (named ''octocat''))) = Inr (JString ''octocat'')
   \<and> template_string (JString ''octocat'') = Some ''octocat''
   \<and> get_repos octocat_upstream (repos_url ''octocat'') = Resolved (RepoArray octocat_repos)
   \<and> list_all (\<lambda>r. repo.language r \<notin> Some ` set (''__proto__'' # inherited_functions))
        octocat_repos
   \<and> map_of [(''TypeScript'', Count 1), (''Python'', Count 2), (''HTML'', Count 1)] ''Python'' =
       Some (Count (length
         (filter (\<lambda>r. \<not> fork r \<and> repo.language r = Some ''Python'') octocat_repos)))
   \<and> map_of [(''TypeScript'', Count 1), (''Python'', Count 2), (''HTML'', Count 1)] ''Ruby'' = None
   \<and> sum_list (map (count_of \<circ> snd)
        [(''TypeScript'', Count 1), (''Python'', Count 2), (''HTML'', Count 1)]) =
       length (filter (\<lambda>r. \<not> fork r \<and> repo.language r \<noteq> None
                           \<and> repo.language r \<noteq> Some []) octocat_repos)
   \<and> length (filter (\<lambda>r. \<not> fork r \<and> repo.language r \<noteq> None
                           \<and> repo.language r \<noteq> Some []) octocat_repos) = 4"
proof -
  have plain: "list_all (\<lambda>r. repo.language r \<notin> Some ` set (''__proto__'' # inherited_functions))
      octocat_repos"
    by (simp add: octocat_repos_def example_repo_def inherited_functions_def)
  have python: "filter (\<lambda>r. \<not> fork r \<and> repo.language r = Some ''Python'') octocat_repos \<noteq> []"
    and ruby: "filter (\<lambda>r. \<not> fork r \<and> repo.language r = Some ''Ruby'') octocat_repos = []"
    and four: "length (filter (\<lambda>r. \<not> fork r \<and> repo.language r \<noteq> None
                           \<and> repo.language r \<noteq> Some []) octocat_repos) = 4"
    by (simp_all add: octocat_repos_def example_repo_def)
  have u: "template_string (JString ''octocat'') = Some ''octocat''" by simp
  note counted = language_statistics_count_non_forks
    [OF handler_octocat octocat_sent post_named(2) u octocat_resolved(2) plain]
  have "map_of [(''TypeScript'', Count 1), (''Python'', Count 2), (''HTML'', Count 1)] ''Python'' =
       Some (Count (length
         (filter (\<lambda>r. \<not> fork r \<and> repo.language r = Some ''Python'') octocat_repos)))"
    using conjunct1 [OF conjunct2 [OF counted], THEN spec, of "''Python''"] python by simp
  moreover have "map_of [(''TypeScript'', Count 1), (''Python'', Count 2), (''HTML'', Count 1)] ''Ruby''
      = None"
    by simp
  moreover have "sum_list (map (count_of \<circ> snd)
        [(''TypeScript'', Count 1), (''Python'', Count 2), (''HTML'', Count 1)]) =
       length (filter (\<lambda>r. \<not> fork r \<and> repo.language r \<noteq> None
                           \<and> repo.language r \<noteq> Some []) octocat_repos)"
    using counted by blast
  ultimately show ?thesis
    using handler_octocat octocat_sent post_named(2) u octocat_resolved(2) plain four
    by blast
qed

text \<open>
  C5. For every fetched repository list, the projects of the result are the summaries of
  the selected repositories, in order. The selected repositories are non-fork
  repositories of the list the upstream sent for the queried account; there are
  \<open>min 3 n\<close> of them for \<open>n\<close> non-fork repositories; they are in descending order of
  stars; no repository left out has more stars than a selected one; and for each number
  of stars, the selected repositories with that many stars are the first ones, in the
  order of the upstream list, of the non-fork repositories with that many stars.
\<close>

theorem top_three_by_stars:
  assumes "handler up req = Inr e" and "sent e = SummaryJson prof stats ps"
    and "read_username (body req) = Inr v" and "template_string v = Some u"
    and "get_repos up (repos_url u) = Resolved (RepoArray rs)"
  shows "ps = map (enrich up u) (top_repos (non_forks rs))
       \<and> set (top_repos (non_forks rs)) \<subseteq> {r \<in> set rs. \<not> fork r}
       \<and> length ps = min 3 (length (filter (\<lambda>r. \<not> fork r) rs))
       \<and> map stars ps = map stargazers_count (top_repos (non_forks rs))
       \<and> map project.name ps = map repo.name (top_repos (non_forks rs))
       \<and> sorted_wrt (\<lambda>p q. stars q \<le> stars p) ps
       \<and> (\<forall>a b. a \<in> set (top_repos (non_forks rs)) \<and> b \<in> set rs \<and> \<not> fork b
                  \<and> b \<notin> set (top_repos (non_forks rs))
              \<longrightarrow> stargazers_count b \<le> stargazers_count a)
       \<and> (\<forall>k. prefix (filter (\<lambda>r. stargazers_count r = k) (top_repos (non_forks rs)))
                 (filter (\<lambda>r. \<not> fork r \<and> stargazers_count r = k) rs))"
proof -
  obtain v' u' rs' where "read_username (body req) = Inr v'" and "template_string v' = Some u'"
    and "get_repos up (repos_url u') = Resolved (RepoArray rs')"
    and "ps = map (enrich up u') (top_repos (non_forks rs'))"
    using assms(1,2) by (rule handler_summary)
  with assms(3,4,5) have ps: "ps = map (enrich up u) (top_repos (non_forks rs))"
    by simp
  have sub: "set (top_repos (non_forks rs)) \<subseteq> {r \<in> set rs. \<not> fork r}"
    using set_top_repos [of "non_forks rs"] by (auto simp: non_forks_def)
  have len: "length ps = min 3 (length (filter (\<lambda>r. \<not> fork r) rs))"
    by (simp add: ps length_top_repos non_forks_def)
  have st: "map stars ps = map stargazers_count (top_repos (non_forks rs))"
    and nm: "map project.name ps = map repo.name (top_repos (non_forks rs))"
    by (simp_all add: ps enrich_fields comp_def)
  have srt: "sorted_wrt (\<lambda>p q. stars q \<le> stars p) ps"
    using sorted_top_repos [of "non_forks rs"]
    by (simp add: ps sorted_wrt_map enrich_fields)
  have top: "stargazers_count b \<le> stargazers_count a"
    if "a \<in> set (top_repos (non_forks rs))" "b \<in> set rs" "\<not> fork b"
      "b \<notin> set (top_repos (non_forks rs))" for a b
    using that top_repos_are_top [of a "non_forks rs" b] by (simp add: non_forks_def)
  have ties: "prefix (filter (\<lambda>r. stargazers_count r = k) (top_repos (non_forks rs)))
      (filter (\<lambda>r. \<not> fork r \<and> stargazers_count r = k) rs)" for k
    using top_repos_ties [of k "non_forks rs"] by (simp add: filter_non_forks)
  show ?thesis using ps sub len st nm srt top ties by blast
qed

text \<open>
  The test account: the repository with 50 stars comes first, and the two with 10 stars
  follow in the order in which the upstream listed them.
\<close>

theorem top_three_by_stars_witness:
  "handler octocat_upstream (post (named ''octocat'')) = Inr octocat_effects
   \<and> sent octocat_effects =
       SummaryJson (make_profile octocat_user)
         [(''TypeScript'', Count 1), (''Python'', Count 2), (''HTML'', Count 1)] octocat_projects
   \<and> read_username (body (post (named ''octocat''))) = Inr (JString ''octocat'')
   \<and> template_string (JString ''octocat'') = Some ''octocat''
   \<and> get_repos octocat_upstream (repos_url ''octocat'') = Resolved (RepoArray octocat_repos)
   \<and> length octocat_projects = min 3 (length (filter (\<lambda>r. \<not> fork r) octocat_repos))
   \<and> map project.name octocat_projects = map repo.name (top_repos (non_forks octocat_repos))
   \<and> map project.name octocat_projects = [''spoon'', ''hello'', ''notes'']
   \<and> map stars octocat_projects = [50, 10, 10]
   \<and> sorted_wrt (\<lambda>p q. stars q \<le> stars p) octocat_projects"
proof -
  have u: "template_string (JString ''octocat'') = Some ''octocat''" by simp
  note top = top_three_by_stars
    [OF handler_octocat octocat_sent post_named(2) u octocat_resolved(2)]
  have "map project.name octocat_projects = [''spoon'', ''hello'', ''notes'']"
    and "map stars octocat_projects = [50, 10, 10]"
    by (simp_all add: octocat_projects_def example_project_def)
  then show ?thesis
    using top handler_octocat octocat_sent post_named(2) u octocat_resolved(2) by blast
qed

text \<open>
  C6. When the profile and the repository list were fetched, and the commit-activity
  request for one selected repository is rejected or answers that the statistics are
  not computed yet, the handler still answers 200; this repository is in the result, at
  its place, with an empty weekly series and \<open>recentCommits = 0\<close>; and the summaries of
  the other repositories are what they are whatever this request answers.
\<close>

theorem commit_activity_failure_is_absorbed:
  assumes "http_method req = ''POST''" and "read_username (body req) = Inr v"
    and "template_string v = Some u"
    and "get_user up (user_url u) = Resolved (UserObject d)"
    and "get_repos up (repos_url u) = Resolved (RepoArray rs)"
    and "i < length (top_repos (non_forks rs))"
    and "get_commit_activity up
           (commit_activity_url u (repo.name (top_repos (non_forks rs) ! i)))
           = Rejected
       \<or> get_commit_activity up
           (commit_activity_url u (repo.name (top_repos (non_forks rs) ! i)))
           = Resolved NotComputed"
  shows "\<exists>e prof stats ps.
       handler up req = Inr e \<and> status e = 200 \<and> sent e = SummaryJson prof stats ps
     \<and> length ps = length (top_repos (non_forks rs))
     \<and> project.name (ps ! i) = repo.name (top_repos (non_forks rs) ! i)
     \<and> commitWeeks (ps ! i) = [] \<and> recentCommits (ps ! i) = 0
     \<and> (\<forall>a. \<exists>e' prof' stats' ps'.
           handler
             (up\<lparr>get_commit_activity := (get_commit_activity up)
                   (commit_activity_url u
                      (repo.name (top_repos (non_forks rs) ! i)) := a)\<rparr>) req = Inr e'
         \<and> status e' = 200 \<and> sent e' = SummaryJson prof' stats' ps'
         \<and> length ps' = length ps
         \<and> (\<forall>j < length ps.
               repo.name (top_repos (non_forks rs) ! j) \<noteq> repo.name (top_repos (non_forks rs) ! i)
               \<longrightarrow> ps' ! j = ps ! j))"
proof -
  let ?u = u
  let ?top = "top_repos (non_forks rs)"
  let ?url = "commit_activity_url ?u (repo.name (?top ! i))"
  let ?ps = "map (enrich up ?u) ?top"
  note run = handler_resolved [OF assms(1-5)]
  have this_one: "commitWeeks (?ps ! i) = []" "recentCommits (?ps ! i) = 0"
    "project.name (?ps ! i) = repo.name (?top ! i)"
    using assms(6) enrich_unavailable [OF assms(7)] by (simp_all add: enrich_fields)
  have others: "\<exists>e' prof' stats' ps'.
        handler (up\<lparr>get_commit_activity := (get_commit_activity up)(?url := a)\<rparr>) req = Inr e'
      \<and> status e' = 200 \<and> sent e' = SummaryJson prof' stats' ps'
      \<and> length ps' = length ?ps
      \<and> (\<forall>j < length ?ps. repo.name (?top ! j) \<noteq> repo.name (?top ! i) \<longrightarrow> ps' ! j = ?ps ! j)"
    for a
  proof -
    let ?up' = "up\<lparr>get_commit_activity := (get_commit_activity up)(?url := a)\<rparr>"
    have u: "get_user ?up' (user_url ?u) = Resolved (UserObject d)"
      and r: "get_repos ?up' (repos_url ?u) = Resolved (RepoArray rs)"
      using assms(4,5) by simp_all
    note run' = handler_resolved [OF assms(1,2,3) u r]
    have same: "map (enrich ?up' ?u) ?top ! j = ?ps ! j"
      if "j < length ?top" "repo.name (?top ! j) \<noteq> repo.name (?top ! i)" for j
    proof -
      have "enrich ?up' ?u (?top ! j) = enrich up ?u (?top ! j)"
        by (rule enrich_cong) (simp add: commit_activity_url_inject that(2))
      then show ?thesis using that(1) by simp
    qed
    have "\<forall>j < length ?ps. repo.name (?top ! j) \<noteq> repo.name (?top ! i) \<longrightarrow>
        map (enrich ?up' ?u) ?top ! j = ?ps ! j"
      using same by simp
    then show ?thesis
      using run' by (intro exI conjI) (assumption | simp)+
  qed
  show ?thesis
    using run this_one others by (intro exI conjI) (assumption | simp)+
qed

text \<open>
  The test account: the statistics of the second selected repository are not computed yet.
\<close>

theorem commit_activity_failure_is_absorbed_witness:
  "http_method (post (named ''octocat'')) = ''POST''
   \<and> read_username (body (post (named ''octocat''))) = Inr (JString ''octocat'')
   \<and> template_string (JString ''octocat'') = Some ''octocat''
   \<and> get_user octocat_upstream (user_url ''octocat'') = Resolved (UserObject octocat_user)
   \<and> get_repos octocat_upstream (repos_url ''octocat'') = Resolved (RepoArray octocat_repos)
   \<and> 1 < length (top_repos (non_forks octocat_repos))
   \<and> get_commit_activity octocat_upstream
        (commit_activity_url ''octocat''
           (repo.name (top_repos (non_forks octocat_repos) ! 1))) = Resolved NotComputed
   \<and> handler octocat_upstream (post (named ''octocat'')) = Inr octocat_effects
   \<and> status octocat_effects = 200
   \<and> project.name (octocat_projects ! 1) = repo.name (top_repos (non_forks octocat_repos) ! 1)
   \<and> commitWeeks (octocat_projects ! 1) = []
   \<and> recentCommits (octocat_projects ! 1) = 0"
proof -
  have u: "template_string (JString ''octocat'') = Some ''octocat''" by simp
  have i: "1 < length (top_repos (non_forks octocat_repos))"
    by (simp add: top_repos_octocat)
  have pending: "get_commit_activity octocat_upstream
        (commit_activity_url ''octocat''
           (repo.name (top_repos (non_forks octocat_repos) ! 1))) = Resolved NotComputed"
    by (simp add: top_repos_octocat example_repo_def octocat_upstream_def
        commit_activity_url_def)
  obtain e prof stats ps where "handler octocat_upstream (post (named ''octocat'')) = Inr e"
    and "status e = 200" and "sent e = SummaryJson prof stats ps"
    and "project.name (ps ! 1) = repo.name (top_repos (non_forks octocat_repos) ! 1)"
    and "commitWeeks (ps ! 1) = []" and "recentCommits (ps ! 1) = 0"
    using commit_activity_failure_is_absorbed
      [OF post_named(1,2) u octocat_resolved i disjI2 [OF pending]]
    by blast
  then have "status octocat_effects = 200"
    and "project.name (octocat_projects ! 1) = repo.name (top_repos (non_forks octocat_repos) ! 1)"
    and "commitWeeks (octocat_projects ! 1) = []"
    and "recentCommits (octocat_projects ! 1) = 0"
    using handler_octocat octocat_sent by simp_all
  then show ?thesis
    using post_named(1,2) u octocat_resolved i pending handler_octocat by blast
qed

section \<open>The claims about the presenter\<close>

text \<open>
  C9. The card renders the sandbox toggle for a project, whatever the state of the card,
  if and only if \<open>isSandboxCompatible\<close> holds for it, and that is if and only if the project
  is preview-eligible in the words of the specification: its primary language is one of
  the listed languages, or one of its topics equals one of the listed topic keywords
  when case is ignored.
\<close>

theorem sandbox_toggle_iff_preview_eligible:
  "(isSandboxCompatible proj \<longleftrightarrow> preview_eligible proj)
   \<and> (toggle_button (ProjectCard proj user c) \<noteq> None \<longleftrightarrow> preview_eligible proj)"
proof -
  have lang: "(case project.language proj of None \<Rightarrow> False | Some l \<Rightarrow> l \<in> set compatibleLanguages)
      \<longleftrightarrow> (\<exists>l. project.language proj = Some l \<and> l \<in> set compatibleLanguages)"
    by (cases "project.language proj") simp_all
  have topic: "(case topics proj of None \<Rightarrow> False
        | Some ts \<Rightarrow> list_ex (\<lambda>topic. toLowerCase topic \<in> set compatibleTopics) ts)
      \<longleftrightarrow> (\<exists>ts t k. topics proj = Some ts \<and> t \<in> set ts \<and> k \<in> set compatibleTopics
            \<and> equal_ignoring_case t k)"
  proof (cases "topics proj")
    case None
    then show ?thesis by simp
  next
    case (Some ts)
    have "toLowerCase t \<in> set compatibleTopics
        \<longleftrightarrow> (\<exists>k. k \<in> set compatibleTopics \<and> equal_ignoring_case t k)" for t
      unfolding equal_ignoring_case_iff using toLowerCase_keywords by metis
    then show ?thesis using Some by (auto simp: list_ex_iff)
  qed
  have "isSandboxCompatible proj \<longleftrightarrow> preview_eligible proj"
    unfolding isSandboxCompatible_def preview_eligible_def lang topic ..
  then show ?thesis by (simp add: ProjectCard_def)
qed

text \<open>
  A Python project with the topic \<open>FrontEnd\<close> is eligible, by the fold of two capitals. A
  Python project whose topics are \<open>reactive\<close>, \<open>Java Script\<close>, \<open>vu\<close> and \<open>front-end\<close> is
  not, nor is one without topics: the card renders no toggle. The languages are compared
  as they are: \<open>javascript\<close> is not on the list.
\<close>

theorem sandbox_toggle_iff_preview_eligible_witness:
  "equal_ignoring_case ''FrontEnd'' ''frontend''
   \<and> preview_eligible tagged_project
   \<and> toggle_button (ProjectCard tagged_project ''octocat'' new_card) = Some ''Try in Sandbox''
   \<and> \<not> equal_ignoring_case ''front-end'' ''frontend''
   \<and> \<not> equal_ignoring_case ''vu'' ''vue''
   \<and> \<not> equal_ignoring_case ''reactive'' ''react''
   \<and> \<not> isSandboxCompatible near_miss_project
   \<and> \<not> preview_eligible near_miss_project
   \<and> toggle_button (ProjectCard near_miss_project ''octocat'' new_card) = None
   \<and> \<not> preview_eligible small_letters_project
   \<and> \<not> preview_eligible (example_project ''api'' (Some ''Python'') 0 [] 0)"
proof -
  have spec: "equal_ignoring_case ''FrontEnd'' ''frontend''"
    "\<not> equal_ignoring_case ''front-end'' ''frontend''"
    "\<not> equal_ignoring_case ''vu'' ''vue''"
    "\<not> equal_ignoring_case ''reactive'' ''react''"
    by (simp_all add: equal_ignoring_case_def same_letter_def is_capital_def)
  have yes: "preview_eligible tagged_project"
    unfolding preview_eligible_def
    by (intro disjI2 exI [of _ "[''REST'', ''FrontEnd'']"] exI [of _ "''FrontEnd''"]
          exI [of _ "''frontend''"])
       (simp add: tagged_project_def compatibleTopics_def spec)
  have no: "\<not> isSandboxCompatible near_miss_project"
    "\<not> isSandboxCompatible small_letters_project"
    "\<not> isSandboxCompatible (example_project ''api'' (Some ''Python'') 0 [] 0)"
    by (simp_all add: isSandboxCompatible_def near_miss_project_def small_letters_project_def
        example_project_def compatibleLanguages_def compatibleTopics_def toLowerCase_def
        lower_char_def)
  have "toggle_button (ProjectCard tagged_project ''octocat'' new_card) = Some ''Try in Sandbox''"
    using yes sandbox_toggle_iff_preview_eligible [of tagged_project]
    by (simp add: ProjectCard_def new_card_def)
  moreover have "toggle_button (ProjectCard near_miss_project ''octocat'' new_card) = None"
    using no(1) by (simp add: ProjectCard_def)
  ultimately show ?thesis
    using spec yes no sandbox_toggle_iff_preview_eligible by blast
qed

text \<open>
  C7. \<open>getFilteredProjects\<close> leaves every array of the store as it was, the array
  \<open>data.projects\<close> among them: the displayed list is a new array. It holds the projects
  that pass the language filter, sorted by the chosen key, and the sort is stable:
  projects that the comparator does not tell apart keep their order.
\<close>

theorem displayed_projects_are_a_sorted_copy:
  assumes "consistent_comparator lc"
    and "data st = Some d" and "projects d = Some a" and "a < length h"
    and "getFilteredProjects lc st h = (res, h')"
  shows "h' ! a = h ! a
       \<and> take (length h) h' = h
       \<and> length h \<le> res \<and> res < length h'
       \<and> mset (h' ! res) =
           mset (if filterLanguage st \<noteq> []
                 then filter (\<lambda>proj. project.language proj = Some (filterLanguage st)) (h ! a)
                 else h ! a)
       \<and> sorted_wrt (\<lambda>x y. sort_comparator lc (sortBy st) x y \<le> 0) (h' ! res)
       \<and> (\<forall>x. filter (\<lambda>y. sort_comparator lc (sortBy st) y x = 0) (h' ! res) =
                filter (\<lambda>y. sort_comparator lc (sortBy st) y x = 0)
                  (if filterLanguage st \<noteq> []
                   then filter (\<lambda>proj. project.language proj = Some (filterLanguage st)) (h ! a)
                   else h ! a))"
proof -
  let ?cmp = "sort_comparator lc (sortBy st)"
  let ?visible = "if filterLanguage st \<noteq> []
      then filter (\<lambda>proj. project.language proj = Some (filterLanguage st)) (h ! a)
      else h ! a"
  have cmp: "consistent_comparator ?cmp"
    using assms(1) by (rule consistent_sort_comparator)
  have frame: "h' ! a = h ! a \<and> take (length h) h' = h \<and> length h \<le> res \<and> res < length h'"
    and shown: "h' ! res = js_sort ?cmp ?visible"
    using assms(4,5)
      getFilteredProjects_unfiltered [OF assms(2,3), of lc h]
      getFilteredProjects_filtered [OF assms(2,3), of lc h]
    by (cases "filterLanguage st = []"; auto simp: nth_append)+
  have stable: "filter (\<lambda>y. ?cmp y x = 0) (js_sort ?cmp ?visible) =
      filter (\<lambda>y. ?cmp y x = 0) ?visible" for x
    by (rule js_sort_stable) (rule consistent_ties [OF cmp])
  show ?thesis
    unfolding shown
    using frame stable sorted_js_sort [OF cmp, of ?visible] mset_js_sort [of ?cmp ?visible]
    unfolding shown by blast
qed

text \<open>
  The page of the test account, sorted by name: the stored array keeps the order of the
  reply, the displayed array is a second one.
\<close>

theorem displayed_projects_are_a_sorted_copy_witness:
  "consistent_comparator code_unit_compare
   \<and> data octocat_home = Some octocat_data \<and> projects octocat_data = Some 0
   \<and> 0 < length octocat_store
   \<and> getFilteredProjects code_unit_compare octocat_home octocat_store =
       (1, [octocat_projects, octocat_by_name])
   \<and> [octocat_projects, octocat_by_name] ! 0 = octocat_store ! 0
   \<and> take (length octocat_store) [octocat_projects, octocat_by_name] = octocat_store
   \<and> mset ([octocat_projects, octocat_by_name] ! 1) = mset (octocat_store ! 0)
   \<and> map project.name ([octocat_projects, octocat_by_name] ! 1) = [''hello'', ''notes'', ''spoon'']"
proof -
  have d: "data octocat_home = Some octocat_data" and a: "projects octocat_data = Some 0"
    and l: "0 < length octocat_store" and f: "filterLanguage octocat_home = []"
    and k: "sortBy octocat_home = ''name''"
    by (simp_all add: octocat_home_def octocat_data_def octocat_store_def)
  have run: "getFilteredProjects code_unit_compare octocat_home octocat_store =
       (1, [octocat_projects, octocat_by_name])"
    unfolding getFilteredProjects_unfiltered [OF d a f] k
    by (simp add: octocat_store_def name_sort_octocat)
  note copy = displayed_projects_are_a_sorted_copy [OF consistent_code_unit_compare d a l run]
  have "map project.name ([octocat_projects, octocat_by_name] ! 1) = [''hello'', ''notes'', ''spoon'']"
    by (simp add: octocat_by_name_def example_project_def)
  then show ?thesis
    using copy consistent_code_unit_compare d a l run f by simp
qed

text \<open>
  C8. The sort by name orders the projects ascending by \<open>localeCompare\<close> on their
  names (the comparison itself, case-sensitive and locale-aware, is the runtime's), and
  it is idempotent: sorting the sorted list again, or any list that is already in this
  order, changes nothing.
\<close>

theorem name_sort_is_ascending_and_idempotent:
  assumes "consistent_comparator lc"
  shows "sorted_wrt (\<lambda>p q. lc (project.name p) (project.name q) \<le> 0)
           (js_sort (sort_comparator lc ''name'') xs)
       \<and> js_sort (sort_comparator lc ''name'') (js_sort (sort_comparator lc ''name'') xs) =
           js_sort (sort_comparator lc ''name'') xs
       \<and> (sorted_wrt (\<lambda>p q. lc (project.name p) (project.name q) \<le> 0) xs \<longrightarrow>
            js_sort (sort_comparator lc ''name'') xs = xs)"
proof -
  let ?cmp = "sort_comparator lc ''name''"
  have cmp: "consistent_comparator ?cmp"
    using assms by (rule consistent_sort_comparator)
  have by_name: "(\<lambda>p q. ?cmp p q \<le> 0) = (\<lambda>p q. lc (project.name p) (project.name q) \<le> 0)"
    by (simp add: sort_comparator_def)
  have "sorted_wrt (\<lambda>p q. lc (project.name p) (project.name q) \<le> 0) (js_sort ?cmp xs)"
    using sorted_js_sort [OF cmp, of xs] unfolding by_name .
  moreover have "js_sort ?cmp (js_sort ?cmp xs) = js_sort ?cmp xs"
    using cmp by (rule js_sort_idem)
  moreover have "js_sort ?cmp xs = xs"
    if "sorted_wrt (\<lambda>p q. lc (project.name p) (project.name q) \<le> 0) xs"
    using that js_sort_sorted_id [of ?cmp xs] unfolding by_name by simp
  ultimately show ?thesis by blast
qed

text \<open>
  The projects of the test account by name.
\<close>

theorem name_sort_is_ascending_and_idempotent_witness:
  "consistent_comparator code_unit_compare
   \<and> js_sort (sort_comparator code_unit_compare ''name'') octocat_projects = octocat_by_name
   \<and> map project.name octocat_by_name = [''hello'', ''notes'', ''spoon'']
   \<and> js_sort (sort_comparator code_unit_compare ''name'') octocat_by_name = octocat_by_name
   \<and> sorted_wrt (\<lambda>p q. code_unit_compare (project.name p) (project.name q) \<le> 0) octocat_by_name"
proof -
  note sorted = name_sort_is_ascending_and_idempotent
    [OF consistent_code_unit_compare, of octocat_projects]
  have "map project.name octocat_by_name = [''hello'', ''notes'', ''spoon'']"
    by (simp add: octocat_by_name_def example_project_def)
  then show ?thesis
    using sorted consistent_code_unit_compare unfolding name_sort_octocat by simp
qed

text \<open>
  C2 does not hold of the code. Each card keeps its own \<open>isMaximized\<close>; the state
  \<open>maximizedProject\<close> of \<open>Home\<close>, the one identity the claim speaks of, is declared and no
  event of the page writes it. From the initial page: the username is typed, the reply
  with two projects arrives, the sandbox of each project is opened and each is
  maximized. Both projects are then expanded, and \<open>maximizedProject\<close> is still \<open>null\<close>.
\<close>

theorem two_projects_expanded_at_once:
  "map project.name (card_list code_unit_compare web_page) = [''hello'', ''site'']
   \<and> expanded code_unit_compare web_page = [''hello'', ''site'']
   \<and> maximizedProject (home_state web_page) = None"
proof -
  have shown: "card_list code_unit_compare web_page =
     [example_project ''hello'' (Some ''TypeScript'') 10 [] 0,
      example_project ''site'' (Some ''HTML'') 3 [] 0]"
    using web_card_list by (simp add: card_list_def web_page_eval)
  have "maximizedProject (home_state web_page) = None"
    unfolding web_page_def steps_keep_maximizedProject by (simp add: initial_page_def)
  then show ?thesis
    by (simp add: expanded_def shown web_compatible web_page_eval)
qed

end
